theory Spec2Isabelle
  imports Complex_Main "HOL-Library.Multiset"
begin

section \<open>Python values, dictionaries and exceptions\<close>

text \<open>
  The statistics module passes configuration and measurement declarations around as
  Python dictionaries. A dictionary is an association list from string keys to values
  (looked up with \<open>map_of\<close>), a float is an opaque payload that is only passed through,
  and every exception the module can raise is a constructor of \<open>error\<close>.
\<close>

datatype pyfloat = Finite rat | PosInf | NegInf | NaN

datatype pyval =
    PStr string
  | PInt int
  | PFloat pyfloat
  | PNone
  | PList "pyval list"
  | PDict "(string \<times> pyval) list"

type_synonym pydict = "(string \<times> pyval) list"

datatype error =
    KeyError string
  | TypeError
  | IndexError
  | ValueError
  | AssertionError
  | RuntimeError string
  | MergeError string
  | IOError
  | AttributeError string
  | ConfigurationError string "pyval list"

text \<open>Sequencing of computations that may raise: the first exception wins.\<close>

fun bindE :: "error + 'a \<Rightarrow> ('a \<Rightarrow> error + 'b) \<Rightarrow> error + 'b" where
  "bindE (Inl e) f = Inl e"
| "bindE (Inr x) f = f x"

text \<open>A list comprehension \<open>[f x for x in xs]\<close> whose body may raise.\<close>

fun mapE :: "('a \<Rightarrow> error + 'b) \<Rightarrow> 'a list \<Rightarrow> error + 'b list" where
  "mapE f [] = Inr []"
| "mapE f (x # xs) = bindE (f x) (\<lambda>y. bindE (mapE f xs) (\<lambda>ys. Inr (y # ys)))"

text \<open>\<open>d[k]\<close>: raises \<open>KeyError\<close> when the key is absent.\<close>

definition getitem :: "pydict \<Rightarrow> string \<Rightarrow> error + pyval" where
  "getitem d k = (case map_of d k of None \<Rightarrow> Inl (KeyError k) | Some v \<Rightarrow> Inr v)"

text \<open>\<open>d.get(k, default)\<close>.\<close>

definition get_default :: "pydict \<Rightarrow> string \<Rightarrow> pyval \<Rightarrow> pyval" where
  "get_default d k dflt = (case map_of d k of None \<Rightarrow> dflt | Some v \<Rightarrow> v)"

text \<open>\<open>v + '<suffix>'\<close> with a string literal on the right: only a string can be extended.\<close>

fun add_str :: "pyval \<Rightarrow> string \<Rightarrow> error + pyval" where
  "add_str (PStr s) suffix = Inr (PStr (s @ suffix))"
| "add_str _ suffix = Inl TypeError"

text \<open>Lists and dictionaries cannot be members of a Python \<open>set\<close>.\<close>

fun hashable :: "pyval \<Rightarrow> bool" where
  "hashable (PList _) = False"
| "hashable (PDict _) = False"
| "hashable _ = True"

text \<open>\<open>'_'.join([a, b])\<close> on two strings.\<close>

definition join_underscore :: "string \<Rightarrow> string \<Rightarrow> string" where
  "join_underscore a b = a @ ''_'' @ b"

text \<open>
  A measurement declaration that can be handed to every statistic: it has a string
  \<open>name\<close> and the three further attributes \<open>dtype\<close>, \<open>nodata\<close> and \<open>units\<close>.
\<close>

definition has_name :: "pydict \<Rightarrow> bool" where
  "has_name m = (case map_of m ''name'' of Some (PStr _) \<Rightarrow> True | _ \<Rightarrow> False)"

definition has_key :: "pydict \<Rightarrow> string \<Rightarrow> bool" where
  "has_key m k = (case map_of m k of Some _ \<Rightarrow> True | None \<Rightarrow> False)"

definition well_formed :: "pydict \<Rightarrow> bool" where
  "well_formed m = (has_name m \<and> has_key m ''dtype'' \<and> has_key m ''nodata'' \<and> has_key m ''units'')"

text \<open>The \<open>name\<close> entries of a list of declarations (\<open>None\<close> where there is none).\<close>

definition names_of :: "pydict list \<Rightarrow> pyval list" where
  "names_of ms = map (\<lambda>m. get_default m ''name'' PNone) ms"


section \<open>Statistic descriptors: output measurement declarations\<close>

subsection \<open>ValueStat.measurements\<close>

definition select_attrs :: "pydict \<Rightarrow> string list \<Rightarrow> error + pydict" where
  "select_attrs measurement attrs =
     mapE (\<lambda>attr. bindE (getitem measurement attr) (\<lambda>v. Inr (attr, v))) attrs"

definition ValueStat_measurements :: "pydict list \<Rightarrow> error + pydict list" where
  "ValueStat_measurements input_measurements =
     mapE (\<lambda>measurement. select_attrs measurement [''name'', ''dtype'', ''nodata'', ''units''])
       input_measurements"

subsection \<open>WofsStats.measurements\<close>

definition WofsStats_measurements :: "pydict list \<Rightarrow> error + pydict list" where
  "WofsStats_measurements input_measurements =
     bindE (mapE (\<lambda>m. bindE (getitem m ''name'')
                          (\<lambda>n. if hashable n then Inr n else Inl TypeError))
              input_measurements) (\<lambda>measurement_names.
       if PStr ''water'' \<notin> set measurement_names then Inl AssertionError
       else Inr
         [ [(''name'', PStr ''count_wet''), (''dtype'', PStr ''int16''),
            (''nodata'', PInt (- 1)), (''units'', PStr ''1'')],
           [(''name'', PStr ''count_clear''), (''dtype'', PStr ''int16''),
            (''nodata'', PInt (- 1)), (''units'', PStr ''1'')],
           [(''name'', PStr ''frequency''), (''dtype'', PStr ''float32''),
            (''nodata'', PInt (- 1)), (''units'', PStr ''1'')] ])"

subsection \<open>NormalisedDifferenceStats\<close>

record NormalisedDifferenceStats =
  nd_stats :: "string list"
  nd_band1 :: string
  nd_band2 :: string
  nd_name :: string
  nd_masked :: bool

text \<open>The constructor: an absent or empty \<open>stats\<close> list is replaced by the default one.\<close>

definition NormalisedDifferenceStats_init ::
  "string \<Rightarrow> string \<Rightarrow> string \<Rightarrow> string list option \<Rightarrow> bool \<Rightarrow> NormalisedDifferenceStats" where
  "NormalisedDifferenceStats_init band1 band2 name stats masked =
     \<lparr> nd_stats = (case stats of None \<Rightarrow> [''min'', ''max'', ''mean'']
                   | Some ss \<Rightarrow> if ss = [] then [''min'', ''max'', ''mean''] else ss),
       nd_band1 = band1, nd_band2 = band2, nd_name = name, nd_masked = masked \<rparr>"

definition NormalisedDifferenceStats_measurements ::
  "NormalisedDifferenceStats \<Rightarrow> pydict list \<Rightarrow> error + pydict list" where
  "NormalisedDifferenceStats_measurements self input_measurements =
     bindE (mapE (\<lambda>m. getitem m ''name'') input_measurements) (\<lambda>measurement_names.
       if PStr (nd_band1 self) \<notin> set measurement_names \<or> PStr (nd_band2 self) \<notin> set measurement_names
       then Inl (ConfigurationError
                   (''Input measurements for %s must include '' @ [CHR 0x22] @ ''%s'' @ [CHR 0x22]
                      @ '' and '' @ [CHR 0x22] @ ''%s'' @ [CHR 0x22])
                   [PStr (nd_name self), PStr (nd_band1 self), PStr (nd_band2 self)])
       else Inr (map (\<lambda>stat. [(''name'', PStr (join_underscore (nd_name self) stat)),
                               (''dtype'', PStr ''float32''),
                               (''nodata'', PInt (- 1)), (''units'', PStr ''1'')])
                   (nd_stats self)))"

subsection \<open>PerBandIndexStat.measurements\<close>

definition PerBandIndexStat_measurements :: "pydict list \<Rightarrow> error + pydict list" where
  "PerBandIndexStat_measurements input_measurements =
     bindE (mapE (\<lambda>measurement.
              bindE (getitem measurement ''name'') (\<lambda>n. bindE (add_str n ''_source'') (\<lambda>n'.
                Inr [(''name'', n'), (''dtype'', PStr ''int8''),
                     (''nodata'', PInt (- 1)), (''units'', PStr ''1'')])))
            input_measurements) (\<lambda>index_measurements.
     bindE (mapE (\<lambda>measurement.
              bindE (getitem measurement ''name'') (\<lambda>n. bindE (add_str n ''_observed'') (\<lambda>n'.
                Inr [(''name'', n'), (''dtype'', PStr ''float64''),
                     (''nodata'', PInt 0), (''units'', PStr ''seconds since 1970-01-01 00:00:00'')])))
            input_measurements) (\<lambda>date_measurements.
     bindE (mapE (\<lambda>measurement.
              bindE (getitem measurement ''name'') (\<lambda>n. bindE (add_str n ''_observed_date'') (\<lambda>n'.
                Inr [(''name'', n'), (''dtype'', PStr ''int32''),
                     (''nodata'', PInt 0), (''units'', PStr ''Date as YYYYMMDD'')])))
            input_measurements) (\<lambda>text_measurements.
     bindE (ValueStat_measurements input_measurements) (\<lambda>base.
       Inr (base @ date_measurements @ index_measurements @ text_measurements)))))"

subsection \<open>PerStatIndexStat.measurements\<close>

definition PerStatIndexStat_measurements :: "pydict list \<Rightarrow> error + pydict list" where
  "PerStatIndexStat_measurements input_measurements =
     (let index_measurements =
            [[(''name'', PStr ''source''), (''dtype'', PStr ''int8''),
              (''nodata'', PInt (- 1)), (''units'', PStr ''1'')]];
          date_measurements =
            [[(''name'', PStr ''observed''), (''dtype'', PStr ''float64''),
              (''nodata'', PInt 0), (''units'', PStr ''seconds since 1970-01-01 00:00:00'')]];
          text_measurements =
            [[(''name'', PStr ''observed_date''), (''dtype'', PStr ''int32''),
              (''nodata'', PInt 0), (''units'', PStr ''Date as YYYYMMDD'')]]
      in bindE (ValueStat_measurements input_measurements) (\<lambda>base.
           Inr (base @ date_measurements @ index_measurements @ text_measurements)))"

text \<open>
  The string names of a list of declarations, and the two arrangements of the output
  names of the per-band index statistic: the one the code builds, and the one the
  written specification words (source before observed).
\<close>

definition name_str :: "pydict \<Rightarrow> string" where
  "name_str m = (case map_of m ''name'' of Some (PStr s) \<Rightarrow> s | _ \<Rightarrow> [])"

definition name_strings :: "pydict list \<Rightarrow> string list" where
  "name_strings ms = concat (map (\<lambda>m. case map_of m ''name'' of Some (PStr s) \<Rightarrow> [s] | _ \<Rightarrow> []) ms)"

definition code_order :: "string list \<Rightarrow> pyval list" where
  "code_order ns = map PStr (ns @ map (\<lambda>n. n @ ''_observed'') ns @ map (\<lambda>n. n @ ''_source'') ns
                       @ map (\<lambda>n. n @ ''_observed_date'') ns)"

definition spec_order :: "string list \<Rightarrow> pyval list" where
  "spec_order ns = map PStr (ns @ map (\<lambda>n. n @ ''_source'') ns @ map (\<lambda>n. n @ ''_observed'') ns
                       @ map (\<lambda>n. n @ ''_observed_date'') ns)"


section \<open>Spatiotemporal volumes\<close>

text \<open>
  An \<open>xarray.Dataset\<close> with a time axis: the \<open>time\<close> coordinate (datetime64[ns], as
  nanoseconds since 1970-01-01), the \<open>source\<close> coordinate along time, and the data
  variables by name. A variable is a list of time slices; a time slice is the list of
  its pixels (the y and x axes flattened, \<open>v_npix\<close> of them). Masked data is floating
  point, with NaN where the input was invalid.
\<close>

record volume =
  v_time :: "int list"
  v_source :: "int list"
  v_npix :: nat
  v_vars :: "(string \<times> pyfloat list list) list"
  v_crs :: string

text \<open>Arrays without a time axis (one entry per pixel), by element type.\<close>

datatype ndarray =
    FloatArr "pyfloat list"
  | IntArr "int list"
  | TimeArr "int list"
  | Int32Arr "int list"

record dataset =
  ds_vars :: "(string \<times> ndarray) list"
  ds_crs :: "string option"

definition well_shaped :: "volume \<Rightarrow> bool" where
  "well_shaped v =
     (length (v_source v) = length (v_time v) \<and>
      list_all (\<lambda>(name, slices). length slices = length (v_time v) \<and>
                  list_all (\<lambda>slice. length slice = v_npix v) slices) (v_vars v))"

text \<open>\<open>(a == c).sum(dim='time')\<close>: per pixel, the number of time slices whose value equals \<open>c\<close>.\<close>

definition count_equal_over_time :: "nat \<Rightarrow> pyfloat list list \<Rightarrow> pyfloat \<Rightarrow> int list" where
  "count_equal_over_time npix slices c =
     foldr (\<lambda>slice acc. map2 (+) (map (\<lambda>x. if x = c then 1 else 0) slice) acc) slices
       (replicate npix 0)"

text \<open>
  True division of two integer counts. The result is a float64: \<open>Finite q\<close> stands for
  the float nearest to the quotient \<open>q\<close>, which is \<open>q\<close> itself when it is a binary
  fraction such as 1/2. Division by zero does not raise on arrays.
\<close>

definition true_divide :: "int \<Rightarrow> int \<Rightarrow> pyfloat" where
  "true_divide a b =
     (if b = 0 then (if a = 0 then NaN else if 0 < a then PosInf else NegInf)
      else Finite (of_int a / of_int b))"

subsection \<open>WofsStats.compute\<close>

definition WofsStats_compute :: "volume \<Rightarrow> error + dataset" where
  "WofsStats_compute data =
     (case map_of (v_vars data) ''water'' of
        None \<Rightarrow> Inl (AttributeError ''water'')
      | Some water \<Rightarrow>
          (let wet = count_equal_over_time (v_npix data) water (Finite 128);
               dry = count_equal_over_time (v_npix data) water (Finite 0);
               clear = map2 (+) wet dry;
               frequency = map2 true_divide wet clear
           in Inr \<lparr> ds_vars = [(''count_wet'', IntArr wet), (''count_clear'', IntArr clear),
                                (''frequency'', FloatArr frequency)],
                     ds_crs = Some (v_crs data) \<rparr>))"

text \<open>The time series of one pixel of a variable.\<close>

definition pixel_series :: "pyfloat list list \<Rightarrow> nat \<Rightarrow> pyfloat list" where
  "pixel_series slices p = map (\<lambda>slice. slice ! p) slices"


section \<open>Task decomposition for a region\<close>

text \<open>
  A \<open>Tile\<close> is built by the catalogue from a product, a time period and a group-by key;
  all the decomposer reads of it is the time coordinate of its sources. The catalogue
  query and the sequence of time periods (\<open>date_sequence\<close>) are parameters.
\<close>

record tile =
  tile_product :: pyval
  tile_sources_time :: "int list"

type_synonym time_period = "int \<times> int"

record StatsConfig =
  cfg_storage :: pydict
  cfg_sources :: "pydict list"
  cfg_output_products :: "pydict list"
  cfg_location :: string
  cfg_input_region :: "pydict option"

record source_bundle =
  sb_data :: tile
  sb_masks :: "tile list"
  sb_spec :: pydict

record 'p StatsTask =
  tile_index :: "(int \<times> int) option"
  time_period :: time_period
  sources :: "source_bundle list"
  output_products :: "'p list"














section \<open>Output products\<close>

subsection \<open>The registry of statistics\<close>

datatype statistic =
    ValueStat string bool
  | PerBandIndexStat int bool
  | PerStatIndexStat bool
  | NormalisedDifference NormalisedDifferenceStats
  | WofsStats

definition STATS :: "(string \<times> statistic) list" where
  "STATS =
     [(''min'', ValueStat ''min'' True),
      (''max'', ValueStat ''max'' True),
      (''mean'', ValueStat ''mean'' True),
      (''percentile_10'', PerBandIndexStat 10 True),
      (''percentile_50'', PerBandIndexStat 50 True),
      (''percentile_90'', PerBandIndexStat 90 True),
      (''medoid'', PerStatIndexStat True),
      (''ndvi_stats'', NormalisedDifference
          (NormalisedDifferenceStats_init ''nir'' ''red'' ''ndvi'' (Some [''min'', ''mean'', ''max'']) True)),
      (''ndwi_stats'', NormalisedDifference
          (NormalisedDifferenceStats_init ''green'' ''swir1'' ''ndwi'' (Some [''min'', ''mean'', ''max'']) True)),
      (''wofs'', WofsStats)]"

fun statistic_masked :: "statistic \<Rightarrow> bool" where
  "statistic_masked (ValueStat _ masked) = masked"
| "statistic_masked (PerBandIndexStat _ masked) = masked"
| "statistic_masked (PerStatIndexStat masked) = masked"
| "statistic_masked (NormalisedDifference nd) = nd_masked nd"
| "statistic_masked WofsStats = True"

fun statistic_measurements :: "statistic \<Rightarrow> pydict list \<Rightarrow> error + pydict list" where
  "statistic_measurements (ValueStat _ _) ms = ValueStat_measurements ms"
| "statistic_measurements (PerBandIndexStat _ _) ms = PerBandIndexStat_measurements ms"
| "statistic_measurements (PerStatIndexStat _) ms = PerStatIndexStat_measurements ms"
| "statistic_measurements (NormalisedDifference nd) ms = NormalisedDifferenceStats_measurements nd ms"
| "statistic_measurements WofsStats ms = WofsStats_measurements ms"

text \<open>\<open>STATS[key]\<close>: an unhashable key is a type error, any other unknown key a key error.\<close>

fun STATS_lookup :: "pyval \<Rightarrow> error + statistic" where
  "STATS_lookup (PStr s) = (case map_of STATS s of None \<Rightarrow> Inl (KeyError s) | Some st \<Rightarrow> Inr st)"
| "STATS_lookup v = (if hashable v then Inl (KeyError ''statistic'') else Inl TypeError)"

subsection \<open>StatProduct\<close>

definition STANDARD_VARIABLE_PARAM_NAMES :: "string set" where
  "STANDARD_VARIABLE_PARAM_NAMES =
     {''zlib'', ''complevel'', ''shuffle'', ''fletcher32'', ''contiguous'', ''attrs''}"

text \<open>\<open>d[k] = v\<close> on a dictionary: an existing key keeps its place.\<close>

fun dict_set :: "('k \<times> 'v) list \<Rightarrow> 'k \<Rightarrow> 'v \<Rightarrow> ('k \<times> 'v) list" where
  "dict_set [] k v = [(k, v)]"
| "dict_set ((k', v') # d) k v = (if k' = k then (k, v) # d else (k', v') # dict_set d k v)"

text \<open>\<open>d.update(e)\<close>.\<close>

definition dict_update :: "('k \<times> 'v) list \<Rightarrow> ('k \<times> 'v) list \<Rightarrow> ('k \<times> 'v) list" where
  "dict_update d e = foldl (\<lambda>acc (k, v). dict_set acc k v) d e"

text \<open>\<open>chunking[dim]\<close> for the value stored under \<open>chunking\<close>: only a dictionary with string keys is modelled.\<close>

fun subscript :: "pyval \<Rightarrow> pyval \<Rightarrow> error + pyval" where
  "subscript (PDict d) (PStr k) = getitem d k"
| "subscript (PDict d) k = (if hashable k then Inl (KeyError ''?'') else Inl TypeError)"
| "subscript _ _ = Inl TypeError"

text \<open>Iterating over the value stored under \<open>dimension_order\<close>.\<close>

fun iterate :: "pyval \<Rightarrow> error + pyval list" where
  "iterate (PList xs) = Inr xs"
| "iterate (PStr s) = Inr (map (\<lambda>c. PStr [c]) s)"
| "iterate (PDict d) = Inr (map (\<lambda>(k, v). PStr k) d)"
| "iterate _ = Inl TypeError"

record product =
  prod_metadata_type :: pyval
  prod_definition :: pydict

record StatProduct =
  sp_definition :: pydict
  sp_product :: product
  sp_netcdf_var_params :: "(pyval \<times> pydict) list"

text \<open>
  What the configuration stage does to the outside world: queries of the catalogue and
  the creation of output product descriptions. Functions of this stage return the
  events they caused, in order, next to their result.
\<close>

datatype event =
    ProductLookup pyval
  | MetadataTypeLookup string
  | ProductCreated pyval

record catalogue =
  products_get_by_name :: "pyval \<Rightarrow> (string \<times> pydict) list option"
  metadata_types_get_by_name :: "string \<Rightarrow> pyval"
  DatasetType_validate :: "pydict \<Rightarrow> error option"

definition StatProduct_create_netcdf_var_params ::
  "pydict \<Rightarrow> pydict \<Rightarrow> pydict list \<Rightarrow> error + (pyval \<times> pydict) list" where
  "StatProduct_create_netcdf_var_params definition storage data_measurements =
     bindE (getitem storage ''chunking'') (\<lambda>chunking.
     bindE (getitem storage ''dimension_order'') (\<lambda>order.
     bindE (iterate order) (\<lambda>dims.
     bindE (mapE (\<lambda>dim. subscript chunking dim) dims) (\<lambda>chunking.
       foldl (\<lambda>acc measurement.
                bindE acc (\<lambda>variable_params.
                bindE (getitem measurement ''name'') (\<lambda>name.
                  if \<not> hashable name then Inl TypeError
                  else Inr (dict_set variable_params name
                         (dict_update
                            (dict_set (filter (\<lambda>(k, v). k \<in> STANDARD_VARIABLE_PARAM_NAMES) definition)
                               ''chunksizes'' (PList chunking))
                            (filter (\<lambda>(k, v). k \<in> STANDARD_VARIABLE_PARAM_NAMES) measurement))))))
         (Inr []) data_measurements))))"

definition StatProduct_create_product ::
  "catalogue \<Rightarrow> pyval \<Rightarrow> pydict \<Rightarrow> pydict list \<Rightarrow> pydict \<Rightarrow> event list \<times> (error + product)" where
  "StatProduct_create_product index metadata_type definition data_measurements storage =
     (case bindE (getitem definition ''name'') (\<lambda>name.
           bindE (case name of PStr s \<Rightarrow> Inr (PStr (''Description for '' @ s)) | _ \<Rightarrow> Inl TypeError)
             (\<lambda>description.
           bindE (getitem definition ''statistic'') (\<lambda>stat_name.
             Inr [(''name'', name), (''description'', description),
                  (''metadata_type'', PStr ''eo''),
                  (''metadata'', PDict [(''format'', PStr ''NetCDF''), (''product_type'', stat_name)]),
                  (''storage'', PDict storage),
                  (''measurements'', PList (map PDict data_measurements))]))) of
        Inl e \<Rightarrow> ([], Inl e)
      | Inr product_definition \<Rightarrow>
          (case DatasetType_validate index product_definition of
             Some e \<Rightarrow> ([], Inl e)
           | None \<Rightarrow> ([ProductCreated (get_default definition ''name'' PNone)],
                       Inr \<lparr> prod_metadata_type = metadata_type,
                             prod_definition = product_definition \<rparr>)))"

definition StatProduct_init ::
  "catalogue \<Rightarrow> pyval \<Rightarrow> pydict list \<Rightarrow> pydict \<Rightarrow> pydict \<Rightarrow> event list \<times> (error + StatProduct)" where
  "StatProduct_init index metadata_type input_measurements definition storage =
     (case bindE (getitem definition ''statistic'') (\<lambda>stat_name.
           bindE (STATS_lookup stat_name) (\<lambda>statistic.
             statistic_measurements statistic input_measurements)) of
        Inl e \<Rightarrow> ([], Inl e)
      | Inr data_measurements \<Rightarrow>
          (case StatProduct_create_product index metadata_type definition data_measurements storage of
             (events, Inl e) \<Rightarrow> (events, Inl e)
           | (events, Inr product) \<Rightarrow>
               (events,
                bindE (StatProduct_create_netcdf_var_params definition storage data_measurements)
                  (\<lambda>params. Inr \<lparr> sp_definition = definition, sp_product = product,
                                   sp_netcdf_var_params = params \<rparr>))))"

subsection \<open>source_product_measurement_defns\<close>

text \<open>
  \<open>all(first_source['measurements'] == source['measurements'] for source in sources)\<close>:
  stops at the first source that differs.
\<close>

fun all_same_measurements :: "pydict \<Rightarrow> pydict list \<Rightarrow> error + bool" where
  "all_same_measurements first_source [] = Inr True"
| "all_same_measurements first_source (source # rest) =
     bindE (getitem first_source ''measurements'') (\<lambda>a.
     bindE (getitem source ''measurements'') (\<lambda>b.
       if a = b then all_same_measurements first_source rest else Inr False))"

fun is_prefix :: "string \<Rightarrow> string \<Rightarrow> bool" where
  "is_prefix [] ys = True"
| "is_prefix (x # xs) [] = False"
| "is_prefix (x # xs) (y # ys) = (x = y \<and> is_prefix xs ys)"

fun is_substring :: "string \<Rightarrow> string \<Rightarrow> bool" where
  "is_substring xs [] = (xs = [])"
| "is_substring xs (y # ys) = (is_prefix xs (y # ys) \<or> is_substring xs ys)"

text \<open>\<open>name in container\<close> for a string \<open>name\<close>.\<close>

fun contains :: "pyval \<Rightarrow> string \<Rightarrow> error + bool" where
  "contains (PList xs) name = Inr (PStr name \<in> set xs)"
| "contains (PDict d) name = Inr (name \<in> set (map fst d))"
| "contains (PStr s) name = Inr (is_substring name s)"
| "contains _ name = Inl TypeError"

fun select_measurements :: "pydict \<Rightarrow> (string \<times> pydict) list \<Rightarrow> error + pydict list" where
  "select_measurements source_defn [] = Inr []"
| "select_measurements source_defn ((name, measurement) # rest) =
     bindE (getitem source_defn ''measurements'') (\<lambda>wanted.
     bindE (contains wanted name) (\<lambda>keep.
     bindE (select_measurements source_defn rest) (\<lambda>ms.
       Inr (if keep then measurement # ms else ms))))"

definition source_product_measurement_defns ::
  "catalogue \<Rightarrow> pydict list \<Rightarrow> event list \<times> (error + pydict list)" where
  "source_product_measurement_defns index srcs =
     (case srcs of
        [] \<Rightarrow> ([], Inl IndexError)
      | first_source # _ \<Rightarrow>
          (case all_same_measurements first_source srcs of
             Inl e \<Rightarrow> ([], Inl e)
           | Inr False \<Rightarrow>
               ([], Inl (RuntimeError
                  ''Configuration Error: listed measurements of source products are not all the same.''))
           | Inr True \<Rightarrow>
               (case getitem first_source ''product'' of
                  Inl e \<Rightarrow> ([], Inl e)
                | Inr product_name \<Rightarrow>
                    ([ProductLookup product_name],
                     (case products_get_by_name index product_name of
                        None \<Rightarrow> Inl (AttributeError ''measurements'')
                      | Some ms \<Rightarrow> select_measurements first_source ms)))))"

subsection \<open>make_products\<close>

text \<open>The loop that creates one \<open>StatProduct\<close> per definition and stores it under its name.\<close>

fun create_products ::
  "catalogue \<Rightarrow> StatsConfig \<Rightarrow> pydict list \<Rightarrow> pydict list \<Rightarrow> (pyval \<times> StatProduct) list \<Rightarrow>
   event list \<times> (error + (pyval \<times> StatProduct) list)" where
  "create_products index config measurements [] products_so_far = ([], Inr products_so_far)"
| "create_products index config measurements (prod_defn # rest) products_so_far =
     (case StatProduct_init index (metadata_types_get_by_name index ''eo'') measurements prod_defn
             (cfg_storage config) of
        (events, Inl e) \<Rightarrow> (MetadataTypeLookup ''eo'' # events, Inl e)
      | (events, Inr stat_product) \<Rightarrow>
          (case getitem prod_defn ''name'' of
             Inl e \<Rightarrow> (MetadataTypeLookup ''eo'' # events, Inl e)
           | Inr name \<Rightarrow>
               if \<not> hashable name then (MetadataTypeLookup ''eo'' # events, Inl TypeError)
               else (case create_products index config measurements rest
                            (dict_set products_so_far name stat_product) of
                       (events', r) \<Rightarrow> (MetadataTypeLookup ''eo'' # events @ events', r))))"

definition make_products ::
  "catalogue \<Rightarrow> StatsConfig \<Rightarrow> event list \<times> (error + (pyval \<times> StatProduct) list)" where
  "make_products index config =
     (case mapE (\<lambda>prod_defn. getitem prod_defn ''name'') (cfg_output_products config) of
        Inl e \<Rightarrow> ([], Inl e)
      | Inr output_names \<Rightarrow>
          (let duplicate_names = filter (\<lambda>x. 1 < count_list output_names x) output_names
           in if duplicate_names \<noteq> []
              then ([], Inl (ConfigurationError
                       ''Output products must all have different names. Duplicates found: %s''
                       [PList duplicate_names]))
              else (case source_product_measurement_defns index (cfg_sources config) of
                      (events, Inl e) \<Rightarrow> (events, Inl e)
                    | (events, Inr measurements) \<Rightarrow>
                        (case create_products index config measurements
                                (cfg_output_products config) [] of
                           (events', r) \<Rightarrow> (events @ events', r)))))"

section \<open>Timestamps and the YYYYMMDD date\<close>

subsection \<open>The proleptic Gregorian calendar\<close>

text \<open>
  The calendar that gives a timestamp its year, month and day: a date is valid when its
  month and day exist, and \<open>days_from_civil\<close> is its day number, counted from
  1970-01-01 (day 0).
\<close>

definition is_leapyear :: "int \<Rightarrow> bool" where
  "is_leapyear y = (y mod 4 = 0 \<and> (y mod 100 \<noteq> 0 \<or> y mod 400 = 0))"

definition month_lengths :: "int \<Rightarrow> int list" where
  "month_lengths y =
     [31, if is_leapyear y then 29 else 28, 31, 30, 31, 30, 31, 31, 30, 31, 30, 31]"



text \<open>The number of leap years among the years 1 .. y - 1 (continued backwards before year 1).\<close>

definition leap_years_before :: "int \<Rightarrow> int" where
  "leap_years_before y = (y - 1) div 4 - (y - 1) div 100 + (y - 1) div 400"

definition days_before_year :: "int \<Rightarrow> int" where
  "days_before_year y = 365 * (y - 1970) + (leap_years_before y - leap_years_before 1970)"

definition days_before_month :: "int \<Rightarrow> int \<Rightarrow> int" where
  "days_before_month y m = sum_list (take (nat (m - 1)) (month_lengths y))"

definition days_from_civil :: "int \<Rightarrow> int \<Rightarrow> int \<Rightarrow> int" where
  "days_from_civil y m d = days_before_year y + days_before_month y m + (d - 1)"

subsection \<open>Casts between datetime64 units, as the array library performs them\<close>

text \<open>
  A datetime64[ns] value is a 64-bit count of nanoseconds since 1970-01-01; the least
  64-bit value is NaT (not a time), and casts and differences keep it. Casting to
  months or years goes through the calendar date, whose day number is the count divided
  by the nanoseconds of a day, rounded towards minus infinity: the day number is split
  into 400-year, 100-year, 4-year and 1-year cycles counted from 2000-01-01, then the
  months of the year are walked through. Casting to days scales the count itself, in
  64-bit arithmetic: a negative count is first lowered by the nanoseconds of a day less
  one, which wraps around near the least value, and is then divided towards zero.
\<close>

definition NaT :: int where
  "NaT = - (2 ^ 63)"

definition ns_per_day :: int where
  "ns_per_day = 86400 * 1000000000"

text \<open>The year within a 4-year cycle that starts with a leap year, and the day within it.\<close>

definition year_in_4 :: "int \<Rightarrow> int \<Rightarrow> int \<times> int" where
  "year_in_4 year days =
     (if days \<ge> 366 then (year + (days - 1) div 365, (days - 1) mod 365) else (year, days))"

text \<open>Within a century that starts with a common year.\<close>

definition year_in_100 :: "int \<Rightarrow> int \<Rightarrow> int \<times> int" where
  "year_in_100 year days =
     (if days \<ge> 365 then year_in_4 (year + 4 * ((days + 1) div 1461)) ((days + 1) mod 1461)
      else (year, days))"

text \<open>Within a 400-year cycle, which starts with a leap year.\<close>

definition year_in_400 :: "int \<Rightarrow> int \<Rightarrow> int \<times> int" where
  "year_in_400 year days =
     (if days \<ge> 366 then year_in_100 (year + 100 * ((days - 1) div 36524)) ((days - 1) mod 36524)
      else (year, days))"

definition days_to_yearsdays :: "int \<Rightarrow> int \<times> int" where
  "days_to_yearsdays days0 =
     (let days = days0 - (365 * 30 + 7)
      in case year_in_400 (400 * (days div 146097)) (days mod 146097) of
           (year, days) \<Rightarrow> (year + 2000, days))"

fun walk_months :: "int list \<Rightarrow> int \<Rightarrow> int \<Rightarrow> int \<times> int" where
  "walk_months [] month days = (month, days + 1)"
| "walk_months (len # lens) month days =
     (if days < len then (month, days + 1) else walk_months lens (month + 1) (days - len))"

definition days_to_ymd :: "int \<Rightarrow> int \<times> int \<times> int" where
  "days_to_ymd days0 =
     (case days_to_yearsdays days0 of
        (year, days) \<Rightarrow> (year, walk_months (month_lengths year) 1 days))"

text \<open>64-bit arithmetic: the low 64 bits, read as two's complement.\<close>

definition int64 :: "int \<Rightarrow> int" where
  "int64 x = (x + 2 ^ 63) mod 2 ^ 64 - 2 ^ 63"

text \<open>Division that truncates towards zero.\<close>

definition c_div :: "int \<Rightarrow> int \<Rightarrow> int" where
  "c_div a b = (if (a < 0) = (b < 0) then \<bar>a\<bar> div \<bar>b\<bar> else - (\<bar>a\<bar> div \<bar>b\<bar>))"

definition astype_D :: "int \<Rightarrow> int" where
  "astype_D t =
     (if t = NaT then NaT
      else if t < 0 then c_div (int64 (t - (ns_per_day - 1))) ns_per_day
      else c_div t ns_per_day)"

definition astype_M :: "int \<Rightarrow> int" where
  "astype_M t =
     (if t = NaT then NaT
      else (case days_to_ymd (t div ns_per_day) of (y, m, d) \<Rightarrow> 12 * (y - 1970) + (m - 1)))"

definition astype_Y :: "int \<Rightarrow> int" where
  "astype_Y t =
     (if t = NaT then NaT
      else (case days_to_ymd (t div ns_per_day) of (y, m, d) \<Rightarrow> y - 1970))"

text \<open>A month count as a day count: the first day of that month.\<close>

definition months_to_days :: "int \<Rightarrow> int" where
  "months_to_days mo = (if mo = NaT then NaT else days_from_civil (1970 + mo div 12) (mo mod 12 + 1) 1)"

text \<open>\<open>a - b + 1\<close> on day counts; the difference is a timedelta64[D], NaT if an operand is.\<close>

definition day_difference_plus_one :: "int \<Rightarrow> int \<Rightarrow> int" where
  "day_difference_plus_one a b = (if a = NaT \<or> b = NaT then NaT else a - b + 1)"

text \<open>\<open>astype('int32')\<close> and int32 arithmetic: the low 32 bits, read as two's complement.\<close>

definition int32 :: "int \<Rightarrow> int" where
  "int32 x = (x + 2 ^ 31) mod 2 ^ 32 - 2 ^ 31"

subsection \<open>datetime64_to_inttime\<close>

definition datetime64_to_inttime :: "int \<Rightarrow> int" where
  "datetime64_to_inttime t =
     (let years = int32 (int32 (astype_Y t) + 1970);
          months = int32 (int32 (astype_M t) mod 12 + 1);
          days = int32 (day_difference_plus_one (astype_D t) (months_to_days (astype_M t)))
      in int32 (int32 (int32 (years * 10000) + int32 (months * 100)) + days))"



section \<open>The per-band index statistic\<close>

text \<open>
  Modelled from the spec: \<open>axisindex\<close> (gather-by-index) is imported from the statistics
  helpers, which are not among the sources. Given an array with a leading time axis and
  an integer index per pixel, it returns, for each pixel, the value at the chosen time
  index. An index outside the time axis is taken to raise.
\<close>

definition axisindex :: "pyfloat list list \<Rightarrow> int list \<Rightarrow> error + pyfloat list" where
  "axisindex values index =
     mapE (\<lambda>(p, i). if 0 \<le> i \<and> nat i < length values \<and> p < length (values ! nat i)
                     then Inr (values ! nat i ! p) else Inl IndexError)
       (enumerate 0 index)"

text \<open>\<open>a[index]\<close> for a one-dimensional array and an integer index array: negative indices count from the end.\<close>

definition np_take :: "'a list \<Rightarrow> int list \<Rightarrow> error + 'a list" where
  "np_take xs index =
     mapE (\<lambda>i. let n = int (length xs); j = (if i < 0 then i + n else i)
               in if 0 \<le> j \<and> j < n then Inr (xs ! nat j) else Inl IndexError)
       index"

text \<open>\<open>data.data_vars[name]\<close>.\<close>

definition data_var :: "volume \<Rightarrow> string \<Rightarrow> error + pyfloat list list" where
  "data_var data name = (case map_of (v_vars data) name of None \<Rightarrow> Inl (KeyError name) | Some v \<Rightarrow> Inr v)"

text \<open>\<open>Dataset.rename\<close> with a new name for every variable.\<close>

definition rename :: "(string \<Rightarrow> string) \<Rightarrow> (string \<times> 'a) list \<Rightarrow> (string \<times> 'a) list" where
  "rename f vars = map (\<lambda>(name, var). (f name, var)) vars"

text \<open>\<open>Dataset.apply(datetime64_to_inttime)\<close>: only arrays of timestamps are converted here.\<close>

fun inttime_array :: "ndarray \<Rightarrow> error + ndarray" where
  "inttime_array (TimeArr ts) = Inr (Int32Arr (map datetime64_to_inttime ts))"
| "inttime_array _ = Inl TypeError"

text \<open>
  \<open>xarray.merge\<close>: the union of the variables of the datasets, in order of first
  appearance; a name that occurs twice must carry the same values.
\<close>

fun merge_var :: "(string \<times> ndarray) list \<Rightarrow> string \<times> ndarray \<Rightarrow> error + (string \<times> ndarray) list" where
  "merge_var acc (name, var) =
     (case map_of acc name of
        None \<Rightarrow> Inr (acc @ [(name, var)])
      | Some var' \<Rightarrow> if var' = var then Inr acc else Inl (MergeError name))"

fun merge_vars :: "(string \<times> ndarray) list \<Rightarrow> (string \<times> ndarray) list \<Rightarrow> error + (string \<times> ndarray) list" where
  "merge_vars acc [] = Inr acc"
| "merge_vars acc (v # vs) = bindE (merge_var acc v) (\<lambda>acc'. merge_vars acc' vs)"

definition xarray_merge :: "(string \<times> ndarray) list list \<Rightarrow> error + (string \<times> ndarray) list" where
  "xarray_merge datasets = merge_vars [] (concat datasets)"

subsection \<open>PerBandIndexStat.compute\<close>

text \<open>
  \<open>stat_func\<close> returns one index array per variable. The name \<open>time_values\<close> is bound
  twice, as in the source: first to the observed timestamps, then to the source tags.
\<close>

definition PerBandIndexStat_compute ::
  "(volume \<Rightarrow> error + (string \<times> int list) list) \<Rightarrow> volume \<Rightarrow> error + (string \<times> ndarray) list" where
  "PerBandIndexStat_compute stat_func data =
     bindE (stat_func data) (\<lambda>index.
     bindE (mapE (\<lambda>(name, var). bindE (data_var data name) (\<lambda>values.
                    bindE (axisindex values var) (\<lambda>g. Inr (name, FloatArr g)))) index)
       (\<lambda>data_values.
     bindE (mapE (\<lambda>(name, var). bindE (np_take (v_time data) var) (\<lambda>ts. Inr (name, TimeArr ts))) index)
       (\<lambda>indexed_time.
     let time_values = rename (\<lambda>name. name @ ''_observed'') indexed_time in
     bindE (mapE (\<lambda>(name, var). bindE (inttime_array var) (\<lambda>a. Inr (name, a))) time_values)
       (\<lambda>inttimes.
     let text_values = rename (\<lambda>name. name @ ''_date'') inttimes in
     bindE (mapE (\<lambda>(name, var). bindE (np_take (v_source data) var) (\<lambda>s. Inr (name, IntArr s))) index)
       (\<lambda>indexed_source.
     let time_values = rename (\<lambda>name. name @ ''_source'') indexed_source in
     xarray_merge [data_values, time_values, text_values])))))"

text \<open>The four variables the specification names for an input variable.\<close>

definition quadruple :: "string \<Rightarrow> string list" where
  "quadruple name = [name, name @ ''_observed'', name @ ''_source'', name @ ''_observed_date'']"

section \<open>Loading the data of a chunk\<close>

text \<open>
  \<open>xarray.concat(datasets, dim='time')\<close>: no dataset to concatenate is an error, and so
  are datasets that do not have the same variables on the same pixels. (Datasets of one
  chunk are loaded for the same slice of the same grid.)
\<close>

definition concat2 :: "volume \<Rightarrow> volume \<Rightarrow> error + volume" where
  "concat2 a b =
     (if map fst (v_vars a) = map fst (v_vars b) \<and> v_npix a = v_npix b
      then Inr \<lparr> v_time = v_time a @ v_time b, v_source = v_source a @ v_source b,
                 v_npix = v_npix a,
                 v_vars = map2 (\<lambda>(name, xs) (name', ys). (name, xs @ ys)) (v_vars a) (v_vars b),
                 v_crs = v_crs a \<rparr>
      else Inl ValueError)"

fun concat_onto :: "volume \<Rightarrow> volume list \<Rightarrow> error + volume" where
  "concat_onto acc [] = Inr acc"
| "concat_onto acc (d # ds) = bindE (concat2 acc d) (\<lambda>acc'. concat_onto acc' ds)"

fun xarray_concat :: "volume list \<Rightarrow> error + volume" where
  "xarray_concat [] = Inl ValueError"
| "xarray_concat (d # ds) = concat_onto d ds"

text \<open>\<open>data.isel(time=positions)\<close>: the time slices at the given positions, in that order.\<close>

definition isel_time :: "volume \<Rightarrow> nat list \<Rightarrow> error + volume" where
  "isel_time data positions =
     (if list_all (\<lambda>i. i < length (v_time data)) positions
      then Inr (data \<lparr> v_time := map (\<lambda>i. v_time data ! i) positions,
                        v_source := map (\<lambda>i. v_source data ! i) positions,
                        v_vars := map (\<lambda>(name, slices). (name, map (\<lambda>i. slices ! i) positions))
                                    (v_vars data) \<rparr>)
      else Inl IndexError)"

text \<open>
  \<open>dataset.coords['source'] = ('time', numpy.repeat(idx, dataset.time.size))\<close> for every
  dataset, with its position in the list.
\<close>

definition tag_source :: "nat \<Rightarrow> volume \<Rightarrow> volume" where
  "tag_source idx dataset = dataset \<lparr> v_source := replicate (length (v_time dataset)) (int idx) \<rparr>"

text \<open>
  \<open>load_masked_data\<close> reads from storage and \<open>argsort\<close> is the array library's default
  (\<open>data.time.argsort()\<close>, no sorting kind requested): both are parameters.
\<close>

definition load_data ::
  "(int list \<Rightarrow> nat list) \<Rightarrow> ('s \<Rightarrow> 'b \<Rightarrow> volume) \<Rightarrow> 's \<Rightarrow> 'b list \<Rightarrow> error + volume" where
  "load_data argsort load_masked_data sub_tile_slice srcs =
     (let datasets = map (\<lambda>source_prod. load_masked_data sub_tile_slice source_prod) srcs;
          datasets = map (\<lambda>(idx, dataset). tag_source idx dataset) (enumerate 0 datasets)
      in bindE (xarray_concat datasets) (\<lambda>data. isel_time data (argsort (v_time data))))"

text \<open>
  What an argsort guarantees whatever its sorting kind: the positions are a permutation
  of all positions, and the values read in that order are ascending.
\<close>

definition is_argsort :: "int list \<Rightarrow> nat list \<Rightarrow> bool" where
  "is_argsort values positions =
     (sort positions = [0 ..< length values] \<and> sorted (map (\<lambda>i. values ! i) positions))"

text \<open>A stable argsort moreover keeps equal values in their original order.\<close>

definition is_stable_argsort :: "int list \<Rightarrow> nat list \<Rightarrow> bool" where
  "is_stable_argsort values positions =
     (is_argsort values positions \<and>
      sorted_wrt (\<lambda>i j. values ! i = values ! j \<longrightarrow> i < j) positions)"

text \<open>
  The time slices of a volume: timestamp, source tag and the pixels of every variable.
\<close>

definition time_slices :: "volume \<Rightarrow> (int \<times> int \<times> (string \<times> pyfloat list) list) list" where
  "time_slices v =
     map (\<lambda>k. (v_time v ! k, v_source v ! k, map (\<lambda>(name, slices). (name, slices ! k)) (v_vars v)))
       [0 ..< length (v_time v)]"

text \<open>Datasets that can be concatenated: same variables, same pixels, and every variable has one slice per timestamp.\<close>

definition time_shaped :: "volume \<Rightarrow> bool" where
  "time_shaped v = list_all (\<lambda>(name, slices). length slices = length (v_time v)) (v_vars v)"

definition concatenable :: "volume list \<Rightarrow> bool" where
  "concatenable datasets =
     (datasets \<noteq> [] \<and>
      list_all (\<lambda>d. time_shaped d \<and> map fst (v_vars d) = map fst (v_vars (hd datasets))
                     \<and> v_npix d = v_npix (hd datasets)) datasets)"

text \<open>A tagged dataset that fits the reference dataset it is concatenated with.\<close>

definition tagged_ok :: "volume \<Rightarrow> volume \<Rightarrow> bool" where
  "tagged_ok ref d = (time_shaped d \<and> length (v_source d) = length (v_time d)
                      \<and> map fst (v_vars d) = map fst (v_vars ref) \<and> v_npix d = v_npix ref)"

text \<open>One time slice of one pixel at timestamp 0, as every bundle of the tie example loads it.\<close>

definition single_slice :: volume where
  "single_slice = \<lparr> v_time = [0], v_source = [], v_npix = 1,
                     v_vars = [(''blue'', [[Finite 1]])], v_crs = ''EPSG:3577'' \<rparr>"

section \<open>The output driver and the processing of a task\<close>

text \<open>
  What \<open>do_stats\<close> and the drivers read of an output product of a task: the file path
  template of its definition (if it has one), the names of the measurements of its
  product, and whether its statistic wants masked data.
\<close>

record stat_view =
  sv_definition :: pydict
  sv_measurements :: "string list"
  sv_masked :: bool

datatype driver_kind = NetcdfOutputDriver | RioOutputDriver

definition OUTPUT_DRIVERS :: "(string \<times> driver_kind) list" where
  "OUTPUT_DRIVERS = [(''NetCDF CF'', NetcdfOutputDriver), (''Geotiff'', RioOutputDriver)]"

text \<open>
  The outside world of a task: which sink cannot be created, which handle fails to
  close, which write, load or computation raises, and the variables a computation
  returns. A handle is the number of the sink in the order of creation.
\<close>

record sink_world =
  open_raises :: "string \<Rightarrow> error option"
  close_raises :: "nat \<Rightarrow> error option"
  write_raises :: "nat \<Rightarrow> string \<Rightarrow> nat \<Rightarrow> error option"
  load_raises :: "nat \<Rightarrow> error option"
  compute_vars :: "string \<Rightarrow> nat \<Rightarrow> error + string list"

text \<open>
  The driver object and the trace of what happened to the sinks: \<open>output_files\<close> is the
  dictionary of the driver, \<open>opened\<close> lists the handles that were opened, \<open>close_calls\<close>
  the handles on which \<open>close()\<close> was invoked, \<open>written\<close> the writes that went through.
\<close>

record driver_state =
  output_files :: "(string \<times> nat) list"
  opened :: "nat list"
  close_calls :: "nat list"
  written :: "(nat \<times> string \<times> nat) list"

type_synonym action = "driver_state \<Rightarrow> driver_state \<times> error option"

text \<open>A \<open>for\<close> loop of actions: an exception ends it, with the state reached so far.\<close>

fun for_each :: "('a \<Rightarrow> action) \<Rightarrow> 'a list \<Rightarrow> action" where
  "for_each f [] st = (st, None)"
| "for_each f (x # xs) st =
     (case f x st of (st', Some e) \<Rightarrow> (st', Some e) | (st', None) \<Rightarrow> for_each f xs st')"

definition OutputDriver_init :: driver_state where
  "OutputDriver_init = \<lparr> output_files = [], opened = [], close_calls = [], written = [] \<rparr>"

text \<open>\<open>str(Path(self.config.location, stat.definition['file_path_template']))\<close>.\<close>

definition filename_template :: "stat_view \<Rightarrow> error + string" where
  "filename_template stat =
     bindE (getitem (sv_definition stat) ''file_path_template'')
       (\<lambda>t. case t of PStr s \<Rightarrow> Inr s | _ \<Rightarrow> Inl TypeError)"

text \<open>Creating one sink and storing its handle in the dictionary under the key.\<close>

definition open_sink :: "sink_world \<Rightarrow> string \<Rightarrow> action" where
  "open_sink w key st =
     (case open_raises w key of
        Some e \<Rightarrow> (st, Some e)
      | None \<Rightarrow> (st \<lparr> output_files := dict_set (output_files st) key (length (opened st)),
                       opened := opened st @ [length (opened st)] \<rparr>, None))"

fun open_output_files :: "driver_kind \<Rightarrow> sink_world \<Rightarrow> (string \<times> stat_view) list \<Rightarrow> action" where
  "open_output_files NetcdfOutputDriver w products =
     for_each (\<lambda>(prod_name, stat) st.
        case filename_template stat of
          Inl e \<Rightarrow> (st, Some e)
        | Inr t \<Rightarrow> open_sink w prod_name st) products"
| "open_output_files RioOutputDriver w products =
     for_each (\<lambda>(prod_name, stat).
        for_each (\<lambda>measurename st.
           case filename_template stat of
             Inl e \<Rightarrow> (st, Some e)
           | Inr t \<Rightarrow> open_sink w (prod_name @ measurename) st) (sv_measurements stat)) products"

definition close_files :: "sink_world \<Rightarrow> action" where
  "close_files w st =
     for_each (\<lambda>(key, output_file) st.
        (st \<lparr> close_calls := close_calls st @ [output_file] \<rparr>, close_raises w output_file))
       (output_files st) st"

definition write_sink :: "sink_world \<Rightarrow> string \<Rightarrow> string \<Rightarrow> nat \<Rightarrow> action" where
  "write_sink w key var_name chunk_index st =
     (case map_of (output_files st) key of
        None \<Rightarrow> (st, Some (KeyError key))
      | Some output_file \<Rightarrow>
          (case write_raises w output_file var_name chunk_index of
             Some e \<Rightarrow> (st, Some e)
           | None \<Rightarrow> (st \<lparr> written := written st @ [(output_file, var_name, chunk_index)] \<rparr>, None)))"

fun write_data ::
  "driver_kind \<Rightarrow> sink_world \<Rightarrow> (string \<times> stat_view) list \<Rightarrow> string \<Rightarrow> string \<Rightarrow> nat \<Rightarrow> action" where
  "write_data NetcdfOutputDriver w products prod_name var_name chunk_index st =
     write_sink w prod_name var_name chunk_index st"
| "write_data RioOutputDriver w products prod_name var_name chunk_index st =
     (case map_of products prod_name of
        None \<Rightarrow> (st, Some (KeyError prod_name))
      | Some stat \<Rightarrow>
          if var_name \<notin> set (sv_measurements stat) then (st, Some (KeyError var_name))
          else write_sink w (prod_name @ var_name) var_name chunk_index st)"

text \<open>The body of the \<open>with\<close> statement of \<open>do_stats\<close>; the chunks come from \<open>tile_iter\<close>.\<close>

definition do_stats_body ::
  "driver_kind \<Rightarrow> sink_world \<Rightarrow> (string \<times> stat_view) StatsTask \<Rightarrow> nat list \<Rightarrow> action" where
  "do_stats_body kind w task chunks st =
     (if sources task = [] then (st, Some IndexError)
      else for_each (\<lambda>sub_tile_slice st.
             case load_raises w sub_tile_slice of
               Some e \<Rightarrow> (st, Some e)
             | None \<Rightarrow>
                 for_each (\<lambda>(prod_name, stat) st.
                    if \<not> sv_masked stat then (st, Some AssertionError)
                    else (case compute_vars w prod_name sub_tile_slice of
                            Inl e \<Rightarrow> (st, Some e)
                          | Inr var_names \<Rightarrow>
                              for_each (\<lambda>var_name.
                                 write_data kind w (output_products task) prod_name var_name sub_tile_slice)
                                var_names st))
                   (output_products task) st)
             chunks st)"

text \<open>
  The \<open>with\<close> statement: \<open>__enter__\<close> opens the output files, and an exception there
  leaves the statement at once; otherwise the body runs and \<open>__exit__\<close> calls
  \<open>close_files\<close>, after which the exception of the body, if any, goes on, unless
  \<open>close_files\<close> raised one itself.
\<close>

definition with_output_driver ::
  "driver_kind \<Rightarrow> sink_world \<Rightarrow> (string \<times> stat_view) StatsTask \<Rightarrow> nat list \<Rightarrow> driver_state \<times> error option" where
  "with_output_driver kind w task chunks =
     (case open_output_files kind w (output_products task) OutputDriver_init of
        (st, Some e) \<Rightarrow> (st, Some e)
      | (st, None) \<Rightarrow>
          (case do_stats_body kind w task chunks st of
             (st', body_result) \<Rightarrow>
               (case close_files w st' of
                  (st'', Some e) \<Rightarrow> (st'', Some e)
                | (st'', None) \<Rightarrow> (st'', body_result))))"

definition do_stats ::
  "sink_world \<Rightarrow> StatsConfig \<Rightarrow> (string \<times> stat_view) StatsTask \<Rightarrow> nat list \<Rightarrow> driver_state \<times> error option" where
  "do_stats w config task chunks =
     (case getitem (cfg_storage config) ''driver'' of
        Inl e \<Rightarrow> (OutputDriver_init, Some e)
      | Inr (PStr name) \<Rightarrow>
          (case map_of OUTPUT_DRIVERS name of
             None \<Rightarrow> (OutputDriver_init, Some (KeyError name))
           | Some kind \<Rightarrow> with_output_driver kind w task chunks)
      | Inr v \<Rightarrow> (OutputDriver_init, Some (if hashable v then KeyError ''driver'' else TypeError)))"

text \<open>The dictionary keys under which a driver stores its sinks, in order of creation.\<close>

fun sink_keys :: "driver_kind \<Rightarrow> (string \<times> stat_view) list \<Rightarrow> string list" where
  "sink_keys NetcdfOutputDriver products = map fst products"
| "sink_keys RioOutputDriver products =
     concat (map (\<lambda>(prod_name, stat). map (\<lambda>measurename. prod_name @ measurename) (sv_measurements stat))
               products)"

definition has_template :: "stat_view \<Rightarrow> bool" where
  "has_template stat = (case map_of (sv_definition stat) ''file_path_template'' of
                          Some (PStr s) \<Rightarrow> True | _ \<Rightarrow> False)"

text \<open>The sinks of a driver are untouched between two states.\<close>

definition same_sinks :: "driver_state \<Rightarrow> driver_state \<Rightarrow> bool" where
  "same_sinks st st' = (output_files st' = output_files st \<and> opened st' = opened st
                        \<and> close_calls st' = close_calls st)"

text \<open>A task with two output products for the single-container driver, used in the examples.\<close>

definition two_products :: "(string \<times> stat_view) list" where
  "two_products =
     [(''nbar_mean'', \<lparr> sv_definition = [(''name'', PStr ''nbar_mean''), (''statistic'', PStr ''mean''),
                                          (''file_path_template'', PStr ''mean_{x}_{y}.nc'')],
                        sv_measurements = [''red''], sv_masked = True \<rparr>),
      (''nbar_max'', \<lparr> sv_definition = [(''name'', PStr ''nbar_max''), (''statistic'', PStr ''max''),
                                         (''file_path_template'', PStr ''max_{x}_{y}.nc'')],
                       sv_measurements = [''red''], sv_masked = True \<rparr>)]"

definition example_task :: "(string \<times> stat_view) StatsTask" where
  "example_task =
     \<lparr> tile_index = None, time_period = (0, 10),
       sources = [\<lparr> sb_data = \<lparr> tile_product = PStr ''ls8'', tile_sources_time = [1] \<rparr>,
                    sb_masks = [], sb_spec = [(''product'', PStr ''ls8'')] \<rparr>],
       output_products = two_products \<rparr>"

definition netcdf_config :: StatsConfig where
  "netcdf_config = \<lparr> cfg_storage = [(''driver'', PStr ''NetCDF CF'')], cfg_sources = [],
                      cfg_output_products = [], cfg_location = ''/out'', cfg_input_region = None \<rparr>"

section \<open>Verified properties\<close>

subsection \<open>Auxiliary facts about exceptions and names\<close>

lemma bindE_Inr_iff: "bindE m f = Inr y \<longleftrightarrow> (\<exists>x. m = Inr x \<and> f x = Inr y)"
  by (cases m) auto

lemma mapE_Inr: "(\<And>x. x \<in> set xs \<Longrightarrow> f x = Inr (g x)) \<Longrightarrow> mapE f xs = Inr (map g xs)"
  by (induction xs) auto

lemma has_name_getitem: "has_name m \<Longrightarrow> getitem m ''name'' = Inr (get_default m ''name'' PNone)"
  by (auto simp: has_name_def getitem_def get_default_def split: option.splits)

lemma has_name_str: "has_name m \<Longrightarrow> \<exists>s. get_default m ''name'' PNone = PStr s"
  by (auto simp: has_name_def get_default_def split: option.splits pyval.splits)

lemma names_hashable:
  "list_all has_name ms \<Longrightarrow>
   mapE (\<lambda>m. bindE (getitem m ''name'') (\<lambda>n. if hashable n then Inr n else Inl TypeError)) ms
     = Inr (names_of ms)"
  unfolding names_of_def
proof (rule mapE_Inr)
  fix m assume "list_all has_name ms" "m \<in> set ms"
  then have "has_name m" by (simp add: list_all_iff)
  from has_name_getitem [OF this] has_name_str [OF this]
  show "bindE (getitem m ''name'') (\<lambda>n. if hashable n then Inr n else Inl TypeError)
          = Inr (get_default m ''name'' PNone)"
    by auto
qed

lemma has_key_getitem: "has_key d k \<Longrightarrow> getitem d k = Inr (get_default d k PNone)"
  by (auto simp: has_key_def getitem_def get_default_def split: option.splits)

lemma keyed_names:
  "list_all (\<lambda>d. has_key d ''name'') ds \<Longrightarrow> mapE (\<lambda>d. getitem d ''name'') ds = Inr (names_of ds)"
  unfolding names_of_def by (rule mapE_Inr) (simp add: list_all_iff has_key_getitem)

lemma has_name_lookup: "has_name m \<Longrightarrow> map_of m ''name'' = Some (PStr (name_str m))"
  by (auto simp: has_name_def name_str_def split: option.splits pyval.splits)

lemma name_strings_wf: "list_all has_name ms \<Longrightarrow> name_strings ms = map name_str ms"
  by (induction ms) (auto simp: name_strings_def has_name_lookup)

lemma derived_decl:
  assumes "has_name m"
  shows "bindE (getitem m ''name'') (\<lambda>n. bindE (add_str n sfx) (\<lambda>n'. Inr ((''name'', n') # rest)))
         = Inr ((''name'', PStr (name_str m @ sfx)) # rest)"
  using has_name_lookup [OF assms] by (simp add: getitem_def)

lemma base_decl:
  assumes "well_formed m"
  shows "select_attrs m [''name'', ''dtype'', ''nodata'', ''units'']
         = Inr [(''name'', PStr (name_str m)), (''dtype'', the (map_of m ''dtype'')),
                (''nodata'', the (map_of m ''nodata'')), (''units'', the (map_of m ''units''))]"
  using assms has_name_lookup [of m]
  by (auto simp: well_formed_def has_key_def select_attrs_def getitem_def split: option.splits)

lemma names_of_decls: "names_of (map (\<lambda>m. (''name'', f m) # g m) ms) = map f ms"
  by (simp add: names_of_def get_default_def comp_def)


subsection \<open>Output declarations of the per-band index statistic\<close>

text \<open>
  Claim C2, as the code has it. For every list of N input measurements that each carry
  a string name, a dtype, a nodata value and units, \<open>PerBandIndexStat.measurements\<close>
  returns exactly 4 * N declarations: the N base declarations first, then the N
  \<open><name>_observed\<close> declarations, then the N \<open><name>_source\<close> declarations, then the N
  \<open><name>_observed_date\<close> declarations.
\<close>

theorem PerBandIndexStat_measurements_layout:
  assumes "list_all well_formed input_measurements"
  shows "\<exists>out. PerBandIndexStat_measurements input_measurements = Inr out
           \<and> length out = 4 * length input_measurements
           \<and> names_of out = code_order (name_strings input_measurements)"
proof -
  have hn: "list_all has_name input_measurements"
    using assms by (simp add: list_all_iff well_formed_def)
  have wf: "\<And>m. m \<in> set input_measurements \<Longrightarrow> well_formed m"
    using assms by (simp add: list_all_iff)
  have nm: "\<And>m. m \<in> set input_measurements \<Longrightarrow> has_name m"
    using hn by (simp add: list_all_iff)
  have base: "ValueStat_measurements input_measurements
      = Inr (map (\<lambda>m. (''name'', PStr (name_str m)) # [(''dtype'', the (map_of m ''dtype'')),
                (''nodata'', the (map_of m ''nodata'')), (''units'', the (map_of m ''units''))])
              input_measurements)"
    unfolding ValueStat_measurements_def by (rule mapE_Inr) (simp add: base_decl wf)
  have src: "mapE (\<lambda>measurement.
              bindE (getitem measurement ''name'') (\<lambda>n. bindE (add_str n ''_source'') (\<lambda>n'.
                Inr [(''name'', n'), (''dtype'', PStr ''int8''),
                     (''nodata'', PInt (- 1)), (''units'', PStr ''1'')])))
            input_measurements
      = Inr (map (\<lambda>m. (''name'', PStr (name_str m @ ''_source'')) # [(''dtype'', PStr ''int8''),
                     (''nodata'', PInt (- 1)), (''units'', PStr ''1'')]) input_measurements)"
    by (rule mapE_Inr) (simp add: derived_decl nm)
  have obs: "mapE (\<lambda>measurement.
              bindE (getitem measurement ''name'') (\<lambda>n. bindE (add_str n ''_observed'') (\<lambda>n'.
                Inr [(''name'', n'), (''dtype'', PStr ''float64''),
                     (''nodata'', PInt 0), (''units'', PStr ''seconds since 1970-01-01 00:00:00'')])))
            input_measurements
      = Inr (map (\<lambda>m. (''name'', PStr (name_str m @ ''_observed'')) # [(''dtype'', PStr ''float64''),
                     (''nodata'', PInt 0), (''units'', PStr ''seconds since 1970-01-01 00:00:00'')])
              input_measurements)"
    by (rule mapE_Inr) (simp add: derived_decl nm)
  have dat: "mapE (\<lambda>measurement.
              bindE (getitem measurement ''name'') (\<lambda>n. bindE (add_str n ''_observed_date'') (\<lambda>n'.
                Inr [(''name'', n'), (''dtype'', PStr ''int32''),
                     (''nodata'', PInt 0), (''units'', PStr ''Date as YYYYMMDD'')])))
            input_measurements
      = Inr (map (\<lambda>m. (''name'', PStr (name_str m @ ''_observed_date'')) # [(''dtype'', PStr ''int32''),
                     (''nodata'', PInt 0), (''units'', PStr ''Date as YYYYMMDD'')]) input_measurements)"
    by (rule mapE_Inr) (simp add: derived_decl nm)
  show ?thesis
    unfolding PerBandIndexStat_measurements_def src obs dat base
    by (simp add: name_strings_wf [OF hn] code_order_def names_of_def comp_def get_default_def)
qed

theorem PerBandIndexStat_measurements_layout_witness:
  "list_all well_formed
     [[(''name'', PStr ''blue''), (''dtype'', PStr ''int16''), (''nodata'', PInt (- 999)),
       (''units'', PStr ''1'')]]
   \<and> (\<exists>out. PerBandIndexStat_measurements
         [[(''name'', PStr ''blue''), (''dtype'', PStr ''int16''), (''nodata'', PInt (- 999)),
           (''units'', PStr ''1'')]] = Inr out
        \<and> length out = 4
        \<and> names_of out = [PStr ''blue'', PStr ''blue_observed'', PStr ''blue_source'',
                           PStr ''blue_observed_date''])"
  using PerBandIndexStat_measurements_layout
    [of "[[(''name'', PStr ''blue''), (''dtype'', PStr ''int16''), (''nodata'', PInt (- 999)),
           (''units'', PStr ''1'')]]"]
  by (simp add: well_formed_def has_name_def has_key_def code_order_def name_strings_def)

text \<open>
  The arrangement the specification words (source before observed) is not the one the
  code returns: for the single input measurement \<open>blue\<close> the second declaration is
  \<open>blue_observed\<close>, not \<open>blue_source\<close>.
\<close>

theorem PerBandIndexStat_measurements_order_counterexample:
  "map_sum id names_of (PerBandIndexStat_measurements
     [[(''name'', PStr ''blue''), (''dtype'', PStr ''int16''), (''nodata'', PInt (- 999)),
       (''units'', PStr ''1'')]])
     = Inr [PStr ''blue'', PStr ''blue_observed'', PStr ''blue_source'', PStr ''blue_observed_date'']
   \<and> map_sum id names_of (PerBandIndexStat_measurements
     [[(''name'', PStr ''blue''), (''dtype'', PStr ''int16''), (''nodata'', PInt (- 999)),
       (''units'', PStr ''1'')]])
     \<noteq> Inr (spec_order [''blue''])"
  by (simp add: PerBandIndexStat_measurements_def getitem_def ValueStat_measurements_def
        select_attrs_def names_of_def get_default_def spec_order_def)


subsection \<open>Band check of the normalised difference statistic\<close>

text \<open>
  Claim C5. For every list of input measurements (each with a name),
  \<open>NormalisedDifferenceStats.measurements\<close> raises a Configuration Error when one of its
  two bands is not among the input names; when both are, it does not raise and returns
  one declaration per configured reduction, named \<open><name>_<reduction>\<close>. The function
  takes the declarations only, so no data is touched. With the reductions
  \<open>['min', 'mean', 'max']\<close> there are three reductions, hence three declarations.
\<close>

theorem NormalisedDifferenceStats_measurements_bands:
  assumes "list_all (\<lambda>m. has_key m ''name'') input_measurements"
  shows "(PStr (nd_band1 self) \<notin> set (names_of input_measurements) \<or>
          PStr (nd_band2 self) \<notin> set (names_of input_measurements) \<longrightarrow>
            (\<exists>msg args. NormalisedDifferenceStats_measurements self input_measurements
                          = Inl (ConfigurationError msg args)))
       \<and> (PStr (nd_band1 self) \<in> set (names_of input_measurements) \<and>
          PStr (nd_band2 self) \<in> set (names_of input_measurements) \<longrightarrow>
            (\<exists>out. NormalisedDifferenceStats_measurements self input_measurements = Inr out
                  \<and> length out = length (nd_stats self)
                  \<and> names_of out = map (\<lambda>stat. PStr (join_underscore (nd_name self) stat))
                                      (nd_stats self)))
       \<and> length (nd_stats (NormalisedDifferenceStats_init band1 band2 name
                    (Some [''min'', ''mean'', ''max'']) masked)) = 3"
  using assms
  by (simp add: NormalisedDifferenceStats_measurements_def keyed_names
        NormalisedDifferenceStats_init_def names_of_def get_default_def comp_def)

theorem NormalisedDifferenceStats_measurements_bands_witness:
  "list_all (\<lambda>m. has_key m ''name'') [[(''name'', PStr ''nir'')], [(''name'', PStr ''red'')]]
   \<and> (\<exists>out. NormalisedDifferenceStats_measurements
          (NormalisedDifferenceStats_init ''nir'' ''red'' ''ndvi'' (Some [''min'', ''mean'', ''max'']) True)
          [[(''name'', PStr ''nir'')], [(''name'', PStr ''red'')]] = Inr out
        \<and> length out = 3
        \<and> names_of out = [PStr ''ndvi_min'', PStr ''ndvi_mean'', PStr ''ndvi_max''])
   \<and> list_all (\<lambda>m. has_key m ''name'') [[(''name'', PStr ''nir'')], [(''name'', PStr ''blue'')]]
   \<and> (\<exists>msg args. NormalisedDifferenceStats_measurements
          (NormalisedDifferenceStats_init ''nir'' ''red'' ''ndvi'' (Some [''min'', ''mean'', ''max'']) True)
          [[(''name'', PStr ''nir'')], [(''name'', PStr ''blue'')]] = Inl (ConfigurationError msg args))"
  using NormalisedDifferenceStats_measurements_bands
    [of "[[(''name'', PStr ''nir'')], [(''name'', PStr ''red'')]]"
        "NormalisedDifferenceStats_init ''nir'' ''red'' ''ndvi'' (Some [''min'', ''mean'', ''max'']) True"]
    NormalisedDifferenceStats_measurements_bands
    [of "[[(''name'', PStr ''nir'')], [(''name'', PStr ''blue'')]]"
        "NormalisedDifferenceStats_init ''nir'' ''red'' ''ndvi'' (Some [''min'', ''mean'', ''max'']) True"]
  by (auto simp: has_key_def names_of_def get_default_def NormalisedDifferenceStats_init_def
        join_underscore_def numeral_3_eq_3)


subsection \<open>Output declarations of the water statistic\<close>

text \<open>
  Claim C10. For every list of input measurements (each with a string name),
  \<open>WofsStats.measurements\<close> fails its assertion when no input measurement is named
  \<open>water\<close>, and otherwise returns exactly the three fixed declarations \<open>count_wet\<close>
  (int16, nodata -1), \<open>count_clear\<close> (int16, nodata -1) and \<open>frequency\<close> (float32,
  nodata -1), whatever else the input holds.
\<close>

theorem WofsStats_measurements_water:
  assumes "list_all has_name input_measurements"
  shows "WofsStats_measurements input_measurements =
     (if PStr ''water'' \<in> set (names_of input_measurements)
      then Inr [ [(''name'', PStr ''count_wet''), (''dtype'', PStr ''int16''),
                  (''nodata'', PInt (- 1)), (''units'', PStr ''1'')],
                 [(''name'', PStr ''count_clear''), (''dtype'', PStr ''int16''),
                  (''nodata'', PInt (- 1)), (''units'', PStr ''1'')],
                 [(''name'', PStr ''frequency''), (''dtype'', PStr ''float32''),
                  (''nodata'', PInt (- 1)), (''units'', PStr ''1'')] ]
      else Inl AssertionError)"
  using assms by (simp add: WofsStats_measurements_def names_hashable)

theorem WofsStats_measurements_water_witness:
  "list_all has_name [[(''name'', PStr ''water'')], [(''name'', PStr ''red'')]]
   \<and> WofsStats_measurements [[(''name'', PStr ''water'')], [(''name'', PStr ''red'')]]
       = Inr [ [(''name'', PStr ''count_wet''), (''dtype'', PStr ''int16''),
                (''nodata'', PInt (- 1)), (''units'', PStr ''1'')],
               [(''name'', PStr ''count_clear''), (''dtype'', PStr ''int16''),
                (''nodata'', PInt (- 1)), (''units'', PStr ''1'')],
               [(''name'', PStr ''frequency''), (''dtype'', PStr ''float32''),
                (''nodata'', PInt (- 1)), (''units'', PStr ''1'')] ]
   \<and> list_all has_name [[(''name'', PStr ''red'')]]
   \<and> WofsStats_measurements [[(''name'', PStr ''red'')]] = Inl AssertionError"
  using WofsStats_measurements_water [of "[[(''name'', PStr ''water'')], [(''name'', PStr ''red'')]]"]
    WofsStats_measurements_water [of "[[(''name'', PStr ''red'')]]"]
  by (simp add: has_name_def names_of_def get_default_def)


subsection \<open>The water statistic on a pixel\<close>

lemma count_equal_length:
  "list_all (\<lambda>slice. length slice = n) slices \<Longrightarrow> length (count_equal_over_time n slices c) = n"
  by (induction slices) (auto simp: count_equal_over_time_def)

lemma count_equal_nth:
  "list_all (\<lambda>slice. length slice = n) slices \<Longrightarrow> p < n \<Longrightarrow>
   count_equal_over_time n slices c ! p = int (length (filter (\<lambda>x. x = c) (pixel_series slices p)))"
proof (induction slices)
  case Nil
  then show ?case by (simp add: count_equal_over_time_def pixel_series_def)
next
  case (Cons s ss)
  then have len: "length (count_equal_over_time n ss c) = n" "length s = n"
    by (simp_all add: count_equal_length)
  have "count_equal_over_time n (s # ss) c
      = map2 (+) (map (\<lambda>x. if x = c then 1 else 0) s) (count_equal_over_time n ss c)"
    by (simp add: count_equal_over_time_def)
  with Cons len show ?case by (simp add: pixel_series_def)
qed

text \<open>
  Claim C6. For every volume with a \<open>water\<close> variable and every pixel of it,
  \<open>WofsStats.compute\<close> returns the three variables \<open>count_wet\<close>, \<open>count_clear\<close> and
  \<open>frequency\<close>, where at that pixel count_wet is the number of codes of the pixel's
  time series equal to 128, count_clear is count_wet plus the number of codes equal
  to 0, and frequency is count_wet divided by count_clear (not a number when
  count_clear is 0). In particular, at a pixel whose codes over 4 time steps are
  [128, 0, 128, 0], count_wet = 2, count_clear = 4 and frequency = 0.5.
\<close>

theorem WofsStats_compute_per_pixel:
  assumes "map_of (v_vars data) ''water'' = Some water"
    and "list_all (\<lambda>slice. length slice = v_npix data) water"
    and "p < v_npix data"
  shows "\<exists>wet clear frequency.
           WofsStats_compute data =
             Inr \<lparr> ds_vars = [(''count_wet'', IntArr wet), (''count_clear'', IntArr clear),
                              (''frequency'', FloatArr frequency)],
                   ds_crs = Some (v_crs data) \<rparr>
           \<and> length wet = v_npix data \<and> length clear = v_npix data
           \<and> length frequency = v_npix data
           \<and> wet ! p = int (length (filter (\<lambda>x. x = Finite 128) (pixel_series water p)))
           \<and> clear ! p = wet ! p + int (length (filter (\<lambda>x. x = Finite 0) (pixel_series water p)))
           \<and> frequency ! p =
                 (if clear ! p = 0 then NaN else Finite (of_int (wet ! p) / of_int (clear ! p)))
           \<and> (pixel_series water p = [Finite 128, Finite 0, Finite 128, Finite 0]
                \<longrightarrow> wet ! p = 2 \<and> clear ! p = 4 \<and> frequency ! p = Finite (1 / 2))"
proof -
  let ?wet = "count_equal_over_time (v_npix data) water (Finite 128)"
  let ?dry = "count_equal_over_time (v_npix data) water (Finite 0)"
  let ?clear = "map2 (+) ?wet ?dry"
  let ?frequency = "map2 true_divide ?wet ?clear"
  let ?nw = "int (length (filter (\<lambda>x. x = Finite 128) (pixel_series water p)))"
  let ?nd = "int (length (filter (\<lambda>x. x = Finite 0) (pixel_series water p)))"
  have lw: "length ?wet = v_npix data" and ld: "length ?dry = v_npix data"
    using assms(2) by (simp_all add: count_equal_length)
  have lc: "length ?clear = v_npix data" and lf: "length ?frequency = v_npix data"
    using lw ld by simp_all
  have w: "?wet ! p = ?nw" and d: "?dry ! p = ?nd"
    using assms(2,3) by (simp_all add: count_equal_nth)
  have c: "?clear ! p = ?wet ! p + ?nd"
    using lw ld assms(3) d by simp
  have fd: "?frequency ! p = true_divide (?wet ! p) (?clear ! p)"
    using lw lc assms(3) by simp
  have "0 \<le> ?wet ! p" "0 \<le> ?nd" unfolding w by simp_all
  with c have "?clear ! p = 0 \<Longrightarrow> ?wet ! p = 0" by linarith
  then have f: "?frequency ! p =
      (if ?clear ! p = 0 then NaN else Finite (of_int (?wet ! p) / of_int (?clear ! p)))"
    unfolding fd by (simp add: true_divide_def)
  have ex: "?wet ! p = 2 \<and> ?clear ! p = 4 \<and> ?frequency ! p = Finite (1 / 2)"
    if "pixel_series water p = [Finite 128, Finite 0, Finite 128, Finite 0]"
  proof -
    from that have w2: "?wet ! p = 2" and c4: "?clear ! p = 4" unfolding c w by simp_all
    from f have "?frequency ! p = Finite (1 / 2)" unfolding w2 c4 by simp
    with w2 c4 show ?thesis by simp
  qed
  have r: "WofsStats_compute data =
             Inr \<lparr> ds_vars = [(''count_wet'', IntArr ?wet), (''count_clear'', IntArr ?clear),
                              (''frequency'', FloatArr ?frequency)],
                   ds_crs = Some (v_crs data) \<rparr>"
    using assms(1) by (simp add: WofsStats_compute_def Let_def)
  show ?thesis
  proof (rule exI [of _ ?wet], rule exI [of _ ?clear], rule exI [of _ ?frequency], intro conjI impI)
    show "WofsStats_compute data =
             Inr \<lparr> ds_vars = [(''count_wet'', IntArr ?wet), (''count_clear'', IntArr ?clear),
                              (''frequency'', FloatArr ?frequency)],
                   ds_crs = Some (v_crs data) \<rparr>" by (rule r)
    show "length ?wet = v_npix data" by (rule lw)
    show "length ?clear = v_npix data" by (rule lc)
    show "length ?frequency = v_npix data" by (rule lf)
    show "?wet ! p = ?nw" by (rule w)
    show "?clear ! p = ?wet ! p + ?nd" by (rule c)
    show "?frequency ! p =
      (if ?clear ! p = 0 then NaN else Finite (of_int (?wet ! p) / of_int (?clear ! p)))"
      by (rule f)
  next
    assume a: "pixel_series water p = [Finite 128, Finite 0, Finite 128, Finite 0]"
    from ex [OF a] show "?wet ! p = 2" by (rule conjunct1)
  next
    assume a: "pixel_series water p = [Finite 128, Finite 0, Finite 128, Finite 0]"
    from ex [OF a] show "?clear ! p = 4" by simp
  next
    assume a: "pixel_series water p = [Finite 128, Finite 0, Finite 128, Finite 0]"
    from ex [OF a] show "?frequency ! p = Finite (1 / 2)" by simp
  qed
qed

theorem WofsStats_compute_per_pixel_witness:
  "map_of (v_vars \<lparr> v_time = [0, 1, 2, 3], v_source = [0, 0, 0, 0], v_npix = 2,
       v_vars = [(''water'', [[Finite 128, Finite 0], [Finite 0, Finite 0],
                              [Finite 128, Finite 2], [Finite 0, Finite 128]])],
       v_crs = ''EPSG:3577'' \<rparr>) ''water''
     = Some [[Finite 128, Finite 0], [Finite 0, Finite 0], [Finite 128, Finite 2], [Finite 0, Finite 128]]
   \<and> list_all (\<lambda>slice. length slice = v_npix \<lparr> v_time = [0, 1, 2, 3], v_source = [0, 0, 0, 0], v_npix = 2,
       v_vars = [(''water'', [[Finite 128, Finite 0], [Finite 0, Finite 0],
                              [Finite 128, Finite 2], [Finite 0, Finite 128]])],
       v_crs = ''EPSG:3577'' \<rparr>) [[Finite 128, Finite 0], [Finite 0, Finite 0], [Finite 128, Finite 2], [Finite 0, Finite 128]]
   \<and> 0 < v_npix \<lparr> v_time = [0, 1, 2, 3], v_source = [0, 0, 0, 0], v_npix = 2,
       v_vars = [(''water'', [[Finite 128, Finite 0], [Finite 0, Finite 0],
                              [Finite 128, Finite 2], [Finite 0, Finite 128]])],
       v_crs = ''EPSG:3577'' \<rparr>
   \<and> pixel_series [[Finite 128, Finite 0], [Finite 0, Finite 0], [Finite 128, Finite 2], [Finite 0, Finite 128]] 0
       = [Finite 128, Finite 0, Finite 128, Finite 0]
   \<and> (\<exists>wet clear frequency.
        WofsStats_compute \<lparr> v_time = [0, 1, 2, 3], v_source = [0, 0, 0, 0], v_npix = 2,
       v_vars = [(''water'', [[Finite 128, Finite 0], [Finite 0, Finite 0],
                              [Finite 128, Finite 2], [Finite 0, Finite 128]])],
       v_crs = ''EPSG:3577'' \<rparr>
        = Inr \<lparr> ds_vars = [(''count_wet'', IntArr wet), (''count_clear'', IntArr clear),
                           (''frequency'', FloatArr frequency)],
                ds_crs = Some ''EPSG:3577'' \<rparr>
        \<and> wet ! 0 = 2 \<and> clear ! 0 = 4 \<and> frequency ! 0 = Finite (1 / 2))"
proof -
  let ?data = "\<lparr> v_time = [0, 1, 2, 3], v_source = [0, 0, 0, 0], v_npix = 2,
       v_vars = [(''water'', [[Finite 128, Finite 0], [Finite 0, Finite 0],
                              [Finite 128, Finite 2], [Finite 0, Finite 128]])],
       v_crs = ''EPSG:3577'' \<rparr>"
  let ?water = "[[Finite 128, Finite 0], [Finite 0, Finite 0], [Finite 128, Finite 2], [Finite 0, Finite 128]]"
  have h: "map_of (v_vars ?data) ''water'' = Some ?water"
    "list_all (\<lambda>slice. length slice = v_npix ?data) ?water" "0 < v_npix ?data"
    by simp_all
  have s: "pixel_series ?water 0 = [Finite 128, Finite 0, Finite 128, Finite 0]"
    by (simp add: pixel_series_def)
  from WofsStats_compute_per_pixel [OF h]
  obtain wet clear frequency where r: "WofsStats_compute ?data =
        Inr \<lparr> ds_vars = [(''count_wet'', IntArr wet), (''count_clear'', IntArr clear),
                         (''frequency'', FloatArr frequency)],
              ds_crs = Some (v_crs ?data) \<rparr>"
    and e: "pixel_series ?water 0 = [Finite 128, Finite 0, Finite 128, Finite 0]
                \<longrightarrow> wet ! 0 = 2 \<and> clear ! 0 = 4 \<and> frequency ! 0 = Finite (1 / 2)"
    by (elim exE conjE) (rule that)
  from e s have v: "wet ! 0 = 2 \<and> clear ! 0 = 4 \<and> frequency ! 0 = Finite (1 / 2)" by (rule mp)
  from r have r': "WofsStats_compute ?data =
        Inr \<lparr> ds_vars = [(''count_wet'', IntArr wet), (''count_clear'', IntArr clear),
                         (''frequency'', FloatArr frequency)],
              ds_crs = Some ''EPSG:3577'' \<rparr>" by simp
  have "\<exists>wet clear frequency.
        WofsStats_compute ?data
        = Inr \<lparr> ds_vars = [(''count_wet'', IntArr wet), (''count_clear'', IntArr clear),
                           (''frequency'', FloatArr frequency)],
                ds_crs = Some ''EPSG:3577'' \<rparr>
        \<and> wet ! 0 = 2 \<and> clear ! 0 = 4 \<and> frequency ! 0 = Finite (1 / 2)"
    using r' v by blast
  with h s show ?thesis by blast
qed


subsection \<open>Tasks of the region decomposer\<close>









subsection \<open>Duplicate output product names\<close>

lemma not_distinct_count: "\<not> distinct xs \<Longrightarrow> \<exists>x \<in> set xs. 1 < count_list xs x"
proof (induction xs)
  case Nil
  then show ?case by simp
next
  case (Cons a xs)
  show ?case
  proof (cases "a \<in> set xs")
    case True
    then have "count_list xs a \<noteq> 0" by (simp add: count_list_0_iff)
    then have "1 < count_list (a # xs) a" by simp
    then show ?thesis by (intro bexI [of _ a]) simp_all
  next
    case False
    with Cons.prems have "\<not> distinct xs" by simp
    from Cons.IH [OF this] obtain x where x: "x \<in> set xs" "1 < count_list xs x" by blast
    then have "1 < count_list (a # xs) x" by simp
    with x(1) show ?thesis by (intro bexI [of _ x]) simp_all
  qed
qed

text \<open>
  Claim C8. For every configuration whose output product definitions (each with a name)
  contain two or more products with the same name, \<open>make_products\<close> raises a
  Configuration Error that carries the list of duplicated names, and it has caused no
  event by then: no catalogue lookup and no product creation. (The function loads no
  data on any path.)
\<close>

theorem make_products_duplicate_names:
  assumes "list_all (\<lambda>prod_defn. has_key prod_defn ''name'') (cfg_output_products config)"
    and "\<not> distinct (names_of (cfg_output_products config))"
  shows "\<exists>duplicate_names.
           make_products index config =
             ([], Inl (ConfigurationError
                         ''Output products must all have different names. Duplicates found: %s''
                         [PList duplicate_names]))
           \<and> duplicate_names \<noteq> []
           \<and> set duplicate_names =
               {x \<in> set (names_of (cfg_output_products config)).
                  1 < count_list (names_of (cfg_output_products config)) x}"
proof -
  let ?names = "names_of (cfg_output_products config)"
  let ?dups = "filter (\<lambda>x. 1 < count_list ?names x) ?names"
  from not_distinct_count [OF assms(2)] have ne: "?dups \<noteq> []"
    by (auto simp: filter_empty_conv)
  have "make_products index config =
             ([], Inl (ConfigurationError
                         ''Output products must all have different names. Duplicates found: %s''
                         [PList ?dups]))"
    using ne by (simp add: make_products_def keyed_names [OF assms(1)] Let_def)
  moreover have "set ?dups = {x \<in> set ?names. 1 < count_list ?names x}" by auto
  ultimately show ?thesis using ne by blast
qed

theorem make_products_duplicate_names_witness:
  "\<not> distinct (names_of [[(''name'', PStr ''nbar_mean''), (''statistic'', PStr ''mean'')],
                          [(''name'', PStr ''nbar_mean''), (''statistic'', PStr ''min'')],
                          [(''name'', PStr ''wofs''), (''statistic'', PStr ''wofs'')]])
   \<and> (\<exists>duplicate_names.
        make_products
          \<lparr> products_get_by_name = (\<lambda>name. None), metadata_types_get_by_name = (\<lambda>name. PNone),
            DatasetType_validate = (\<lambda>d. None) \<rparr>
          \<lparr> cfg_storage = [], cfg_sources = [],
            cfg_output_products =
              [[(''name'', PStr ''nbar_mean''), (''statistic'', PStr ''mean'')],
               [(''name'', PStr ''nbar_mean''), (''statistic'', PStr ''min'')],
               [(''name'', PStr ''wofs''), (''statistic'', PStr ''wofs'')]],
            cfg_location = ''/out'', cfg_input_region = None \<rparr>
        = ([], Inl (ConfigurationError
                      ''Output products must all have different names. Duplicates found: %s''
                      [PList duplicate_names]))
        \<and> set duplicate_names = {PStr ''nbar_mean''})"
  using make_products_duplicate_names
    [of "\<lparr> cfg_storage = [], cfg_sources = [],
            cfg_output_products =
              [[(''name'', PStr ''nbar_mean''), (''statistic'', PStr ''mean'')],
               [(''name'', PStr ''nbar_mean''), (''statistic'', PStr ''min'')],
               [(''name'', PStr ''wofs''), (''statistic'', PStr ''wofs'')]],
            cfg_location = ''/out'', cfg_input_region = None \<rparr>"
        "\<lparr> products_get_by_name = (\<lambda>name. None), metadata_types_get_by_name = (\<lambda>name. PNone),
            DatasetType_validate = (\<lambda>d. None) \<rparr>"]
  by (auto simp: has_key_def names_of_def get_default_def)


subsection \<open>The calendar date of a timestamp\<close>







































subsection \<open>Variables returned by the per-band index statistic\<close>

lemma bindE_assoc: "bindE (bindE m f) g = bindE m (\<lambda>x. bindE (f x) g)"
  by (cases m) simp_all

lemma mapE_names:
  assumes "mapE (\<lambda>(name, var). bindE (f name var) (\<lambda>x. Inr (name, g x))) xs = Inr ys"
  shows "map fst ys = map fst xs"
  using assms
proof (induction xs arbitrary: ys)
  case Nil
  then show ?case by simp
next
  case (Cons a xs)
  obtain name var where a: "a = (name, var)" by (cases a)
  let ?F = "\<lambda>(name, var). bindE (f name var) (\<lambda>x. Inr (name, g x))"
  from Cons.prems have h: "bindE (f name var) (\<lambda>x. bindE (mapE ?F xs) (\<lambda>zs. Inr ((name, g x) # zs))) = Inr ys"
    unfolding a by (simp add: bindE_assoc)
  then obtain x where x: "f name var = Inr x" by (cases "f name var") simp_all
  with h have h2: "bindE (mapE ?F xs) (\<lambda>zs. Inr ((name, g x) # zs)) = Inr ys" by simp
  then obtain zs where zs: "mapE ?F xs = Inr zs" by (cases "mapE ?F xs") simp_all
  with h2 have "ys = (name, g x) # zs" by simp
  with Cons.IH [OF zs] show ?case by (simp add: a)
qed

lemma merge_var_names:
  assumes "merge_var acc (name, var) = Inr acc'"
  shows "set (map fst acc') = insert name (set (map fst acc))"
proof (cases "map_of acc name")
  case None
  with assms show ?thesis by auto
next
  case (Some v)
  then have "name \<in> set (map fst acc)" by (metis map_of_SomeD image_eqI fst_conv set_map)
  with assms Some show ?thesis by (auto split: if_splits)
qed

lemma merge_vars_names:
  "merge_vars acc vs = Inr out \<Longrightarrow> set (map fst out) = set (map fst acc) \<union> set (map fst vs)"
proof (induction vs arbitrary: acc)
  case Nil
  then show ?case by simp
next
  case (Cons v vs)
  obtain name var where v: "v = (name, var)" by (cases v)
  from Cons.prems have h: "bindE (merge_var acc (name, var)) (\<lambda>acc'. merge_vars acc' vs) = Inr out"
    unfolding v by simp
  then obtain acc' where a: "merge_var acc (name, var) = Inr acc'"
    by (cases "merge_var acc (name, var)") simp_all
  with h have "merge_vars acc' vs = Inr out" by simp
  from Cons.IH [OF this] merge_var_names [OF a] show ?case by (simp add: v)
qed

text \<open>
  Whatever the input, the variables of a result are the index variables, their
  \<open>_source\<close> variants and their \<open>_observed_date\<close> variants: an \<open>_observed\<close> variable is
  there only if one of these names happens to spell it.
\<close>

lemma PerBandIndexStat_compute_names:
  assumes "stat_func data = Inr index" and "PerBandIndexStat_compute stat_func data = Inr out"
  shows "set (map fst out) =
           set (map fst index) \<union> (\<lambda>n. n @ ''_source'') ` set (map fst index)
           \<union> (\<lambda>n. n @ ''_observed_date'') ` set (map fst index)"
proof -
  let ?A = "mapE (\<lambda>(name, var). bindE (bindE (data_var data name) (\<lambda>values. axisindex values var))
                    (\<lambda>g. Inr (name, FloatArr g))) index"
  let ?B = "mapE (\<lambda>(name, var). bindE (np_take (v_time data) var) (\<lambda>ts. Inr (name, TimeArr ts))) index"
  let ?C = "\<lambda>indexed_time. mapE (\<lambda>(name, var). bindE (inttime_array var) (\<lambda>a. Inr (name, a)))
               (rename (\<lambda>name. name @ ''_observed'') indexed_time)"
  let ?D = "mapE (\<lambda>(name, var). bindE (np_take (v_source data) var) (\<lambda>s. Inr (name, IntArr s))) index"
  have h0: "bindE ?A (\<lambda>data_values. bindE ?B (\<lambda>indexed_time. bindE (?C indexed_time) (\<lambda>inttimes.
              bindE ?D (\<lambda>indexed_source.
                xarray_merge [data_values, rename (\<lambda>name. name @ ''_source'') indexed_source,
                              rename (\<lambda>name. name @ ''_date'') inttimes])))) = Inr out"
    using assms(2) unfolding PerBandIndexStat_compute_def assms(1) Let_def bindE.simps bindE_assoc .
  obtain data_values where dv: "?A = Inr data_values" using h0 by (cases ?A) simp_all
  have h1: "bindE ?B (\<lambda>indexed_time. bindE (?C indexed_time) (\<lambda>inttimes.
              bindE ?D (\<lambda>indexed_source.
                xarray_merge [data_values, rename (\<lambda>name. name @ ''_source'') indexed_source,
                              rename (\<lambda>name. name @ ''_date'') inttimes]))) = Inr out"
    using h0 unfolding dv by simp
  obtain indexed_time where it: "?B = Inr indexed_time" using h1 by (cases ?B) simp_all
  have h2: "bindE (?C indexed_time) (\<lambda>inttimes.
              bindE ?D (\<lambda>indexed_source.
                xarray_merge [data_values, rename (\<lambda>name. name @ ''_source'') indexed_source,
                              rename (\<lambda>name. name @ ''_date'') inttimes])) = Inr out"
    using h1 unfolding it by simp
  obtain inttimes where tx: "?C indexed_time = Inr inttimes"
    using h2 by (cases "?C indexed_time") simp_all
  have h3: "bindE ?D (\<lambda>indexed_source.
                xarray_merge [data_values, rename (\<lambda>name. name @ ''_source'') indexed_source,
                              rename (\<lambda>name. name @ ''_date'') inttimes]) = Inr out"
    using h2 unfolding tx by simp
  obtain indexed_source where src: "?D = Inr indexed_source" using h3 by (cases ?D) simp_all
  have mg: "xarray_merge [data_values, rename (\<lambda>name. name @ ''_source'') indexed_source,
                              rename (\<lambda>name. name @ ''_date'') inttimes] = Inr out"
    using h3 unfolding src by simp
  from mapE_names [OF dv] have n1: "map fst data_values = map fst index" .
  from mapE_names [OF it] have n2: "map fst indexed_time = map fst index" .
  from mapE_names [OF tx] have n3: "map fst inttimes = map (\<lambda>n. n @ ''_observed'') (map fst index)"
    unfolding n2 [symmetric] by (simp add: rename_def comp_def case_prod_unfold)
  from mapE_names [OF src] have n4: "map fst indexed_source = map fst index" .
  have r1: "map fst (rename (\<lambda>name. name @ ''_source'') indexed_source)
              = map (\<lambda>n. n @ ''_source'') (map fst index)"
    unfolding n4 [symmetric] by (simp add: rename_def comp_def case_prod_unfold)
  have "map fst (rename (\<lambda>name. name @ ''_date'') inttimes) = map (\<lambda>n. n @ ''_date'') (map fst inttimes)"
    by (simp add: rename_def comp_def case_prod_unfold)
  then have r2: "map fst (rename (\<lambda>name. name @ ''_date'') inttimes)
              = map (\<lambda>n. n @ ''_observed_date'') (map fst index)"
    unfolding n3 by (simp add: comp_def)
  from merge_vars_names [OF mg [unfolded xarray_merge_def]]
  show ?thesis by (simp add: n1 r1 r2 Un_assoc image_image)
qed

lemmas date_eval =
  datetime64_to_inttime_def astype_Y_def astype_M_def astype_D_def int64_def c_div_def
  NaT_def ns_per_day_def
  days_to_ymd_def days_to_yearsdays_def year_in_400_def year_in_100_def year_in_4_def
  month_lengths_def is_leapyear_def int32_def Let_def months_to_days_def
  day_difference_plus_one_def days_from_civil_def days_before_year_def days_before_month_def
  leap_years_before_def

text \<open>
  Claim C1 says that the result of \<open>PerBandIndexStat.compute\<close> holds, for every input
  variable, the four variables \<open><name>\<close>, \<open><name>_observed\<close>, \<open><name>_source\<close> and
  \<open><name>_observed_date\<close>. The code does not do that. For a volume with the single
  variable \<open>blue\<close> (two time slices, 1999-12-31 from source 0 and 2016-09-29 from
  source 1, two pixels) and the index [1, 0], the result has exactly three variables,
  \<open>blue\<close>, \<open>blue_source\<close> and \<open>blue_observed_date\<close>: the observed timestamps are lost
  when \<open>time_values\<close> is bound again, to the source tags, before the merge.
\<close>

theorem PerBandIndexStat_compute_drops_observed:
  "PerBandIndexStat_compute (\<lambda>data. Inr [(''blue'', [1, 0])])
     \<lparr> v_time = [946598400000000000, 1475107200000000000], v_source = [0, 1], v_npix = 2,
       v_vars = [(''blue'', [[Finite 1, Finite 5], [Finite 3, Finite 2]])],
       v_crs = ''EPSG:3577'' \<rparr>
   = Inr [(''blue'', FloatArr [Finite 3, Finite 5]),
          (''blue_source'', IntArr [1, 0]),
          (''blue_observed_date'', Int32Arr [20160929, 19991231])]
   \<and> quadruple ''blue'' = [''blue'', ''blue_observed'', ''blue_source'', ''blue_observed_date'']
   \<and> ''blue_observed'' \<notin> set (map fst
         [(''blue'', FloatArr [Finite 3, Finite 5]),
          (''blue_source'', IntArr [1, 0]),
          (''blue_observed_date'', Int32Arr [20160929, 19991231])])"
  by (simp add: PerBandIndexStat_compute_def data_var_def axisindex_def np_take_def rename_def
        xarray_merge_def enumerate_eq_zip quadruple_def date_eval)


subsection \<open>Tagging, concatenating and sorting the loaded data\<close>

lemma time_slices_tag:
  "time_slices (tag_source idx d) = map (\<lambda>(t, s, x). (t, int idx, x)) (time_slices d)"
  by (simp add: time_slices_def tag_source_def)

lemma vars_concat_nth:
  assumes "map fst va = map fst vb"
    and "list_all (\<lambda>(name, slices). length slices = n) va"
  shows "map (\<lambda>(name, slices). (name, slices ! k))
           (map2 (\<lambda>(name, xs) (name', ys). (name, xs @ ys)) va vb)
         = (if k < n then map (\<lambda>(name, slices). (name, slices ! k)) va
            else map (\<lambda>(name, slices). (name, slices ! (k - n))) vb)"
  using assms
proof (induction va arbitrary: vb)
  case Nil
  then show ?case by simp
next
  case (Cons a va)
  then obtain b vb' where vb: "vb = b # vb'" by (cases vb) auto
  obtain na xs where a: "a = (na, xs)" by (cases a)
  obtain nb ys where b: "b = (nb, ys)" by (cases b)
  from Cons.prems have "na = nb" "map fst va = map fst vb'" "length xs = n"
    "list_all (\<lambda>(name, slices). length slices = n) va"
    by (simp_all add: vb a b)
  with Cons.IH [of vb'] show ?case
    by (simp add: vb a b nth_append)
qed

lemma time_slices_concat2:
  assumes "concat2 a b = Inr c" "time_shaped a" "length (v_source a) = length (v_time a)"
  shows "time_slices c = time_slices a @ time_slices b"
proof -
  from assms(1) have names: "map fst (v_vars a) = map fst (v_vars b)"
    and c: "c = \<lparr> v_time = v_time a @ v_time b, v_source = v_source a @ v_source b,
                 v_npix = v_npix a,
                 v_vars = map2 (\<lambda>(name, xs) (name', ys). (name, xs @ ys)) (v_vars a) (v_vars b),
                 v_crs = v_crs a \<rparr>"
    by (auto simp: concat2_def split: if_splits)
  from assms(2) have sh: "list_all (\<lambda>(name, slices). length slices = length (v_time a)) (v_vars a)"
    by (simp add: time_shaped_def)
  note v = vars_concat_nth [OF names sh]
  have "time_slices c =
          map (\<lambda>k. ((v_time a @ v_time b) ! k, (v_source a @ v_source b) ! k,
                 map (\<lambda>(name, slices). (name, slices ! k))
                   (map2 (\<lambda>(name, xs) (name', ys). (name, xs @ ys)) (v_vars a) (v_vars b))))
            [0 ..< length (v_time a @ v_time b)]"
    by (simp only: time_slices_def c volume.select_convs)
  also have "\<dots> =
          map (\<lambda>k. ((v_time a @ v_time b) ! k, (v_source a @ v_source b) ! k,
                 (if k < length (v_time a) then map (\<lambda>(name, slices). (name, slices ! k)) (v_vars a)
                  else map (\<lambda>(name, slices). (name, slices ! (k - length (v_time a)))) (v_vars b))))
            [0 ..< length (v_time a @ v_time b)]"
    by (simp only: v)
  also have "\<dots> = time_slices a @ time_slices b"
    unfolding time_slices_def
    by (rule nth_equalityI) (auto simp: nth_append assms(3))
  finally show ?thesis .
qed


lemma vars_concat_shape:
  assumes "map fst va = map fst vb"
    and "list_all (\<lambda>(name, slices). length slices = n) va"
    and "list_all (\<lambda>(name, slices). length slices = m) vb"
  shows "list_all (\<lambda>(name, slices). length slices = n + m)
           (map2 (\<lambda>(name, xs) (name', ys). (name, xs @ ys)) va vb)
         \<and> map fst (map2 (\<lambda>(name, xs) (name', ys). (name, xs @ ys)) va vb) = map fst va"
  using assms
proof (induction va arbitrary: vb)
  case Nil
  then show ?case by simp
next
  case (Cons a va)
  then obtain b vb' where vb: "vb = b # vb'" by (cases vb) auto
  obtain na xs where a: "a = (na, xs)" by (cases a)
  obtain nb ys where b: "b = (nb, ys)" by (cases b)
  from Cons.prems have "map fst va = map fst vb'" "length xs = n" "length ys = m"
    "list_all (\<lambda>(name, slices). length slices = n) va"
    "list_all (\<lambda>(name, slices). length slices = m) vb'"
    by (simp_all add: vb a b)
  with Cons.IH [of vb'] show ?case
    by (simp add: vb a b)
qed

lemma concat2_ok:
  assumes "tagged_ok ref a" "tagged_ok ref b"
  shows "\<exists>c. concat2 a b = Inr c \<and> tagged_ok ref c \<and> v_time c = v_time a @ v_time b
              \<and> time_slices c = time_slices a @ time_slices b"
proof -
  let ?c = "\<lparr> v_time = v_time a @ v_time b, v_source = v_source a @ v_source b,
                 v_npix = v_npix a,
                 v_vars = map2 (\<lambda>(name, xs) (name', ys). (name, xs @ ys)) (v_vars a) (v_vars b),
                 v_crs = v_crs a \<rparr>"
  from assms have eq: "map fst (v_vars a) = map fst (v_vars b)" "v_npix a = v_npix b"
    by (simp_all add: tagged_ok_def)
  then have c: "concat2 a b = Inr ?c" by (simp add: concat2_def)
  from assms have sh: "list_all (\<lambda>(name, slices). length slices = length (v_time a)) (v_vars a)"
    "list_all (\<lambda>(name, slices). length slices = length (v_time b)) (v_vars b)"
    by (simp_all add: tagged_ok_def time_shaped_def)
  from vars_concat_shape [OF eq(1) sh] assms have "tagged_ok ref ?c"
    by (simp add: tagged_ok_def time_shaped_def)
  moreover from assms have "time_slices ?c = time_slices a @ time_slices b"
    by (intro time_slices_concat2 [OF c]) (simp_all add: tagged_ok_def)
  ultimately show ?thesis using c by simp
qed

lemma concat_onto_ok:
  assumes "tagged_ok ref acc" "list_all (tagged_ok ref) ds"
  shows "\<exists>c. concat_onto acc ds = Inr c \<and> tagged_ok ref c
              \<and> v_time c = v_time acc @ concat (map v_time ds)
              \<and> time_slices c = time_slices acc @ concat (map time_slices ds)"
  using assms
proof (induction ds arbitrary: acc)
  case Nil
  then show ?case by simp
next
  case (Cons d ds)
  then have d: "tagged_ok ref d" and ds: "list_all (tagged_ok ref) ds" by simp_all
  from concat2_ok [OF Cons.prems(1) d] obtain c where
    c: "concat2 acc d = Inr c" "tagged_ok ref c" "v_time c = v_time acc @ v_time d"
      "time_slices c = time_slices acc @ time_slices d"
    by blast
  from Cons.IH [OF c(2) ds] obtain c' where
    "concat_onto c ds = Inr c'" "tagged_ok ref c'"
    "v_time c' = v_time c @ concat (map v_time ds)"
    "time_slices c' = time_slices c @ concat (map time_slices ds)"
    by blast
  with c show ?case by simp
qed

lemma xarray_concat_ok:
  assumes "ds \<noteq> []" "list_all (tagged_ok (hd ds)) ds"
  shows "\<exists>c. xarray_concat ds = Inr c
              \<and> v_time c = concat (map v_time ds)
              \<and> time_slices c = concat (map time_slices ds)"
proof -
  from assms obtain d ds' where ds: "ds = d # ds'" by (cases ds) auto
  with assms(2) have "tagged_ok d d" "list_all (tagged_ok d) ds'" by simp_all
  from concat_onto_ok [OF this] show ?thesis by (auto simp: ds)
qed

lemma time_slices_isel:
  assumes "isel_time data positions = Inr out"
  shows "time_slices out = map (\<lambda>i. time_slices data ! i) positions"
    and "v_time out = map (\<lambda>i. v_time data ! i) positions"
proof -
  from assms have ok: "list_all (\<lambda>i. i < length (v_time data)) positions"
    and out: "out = data \<lparr> v_time := map (\<lambda>i. v_time data ! i) positions,
                        v_source := map (\<lambda>i. v_source data ! i) positions,
                        v_vars := map (\<lambda>(name, slices). (name, map (\<lambda>i. slices ! i) positions))
                                    (v_vars data) \<rparr>"
    by (auto simp: isel_time_def split: if_splits)
  show "v_time out = map (\<lambda>i. v_time data ! i) positions" by (simp add: out)
  show "time_slices out = map (\<lambda>i. time_slices data ! i) positions"
  proof (rule nth_equalityI)
    show "length (time_slices out) = length (map (\<lambda>i. time_slices data ! i) positions)"
      by (simp add: time_slices_def out)
  next
    fix k assume "k < length (time_slices out)"
    then have k: "k < length positions" by (simp add: time_slices_def out)
    with ok have p: "positions ! k < length (v_time data)" by (simp add: list_all_length)
    have "map (\<lambda>(name, slices). (name, slices ! k))
            (map (\<lambda>(name, slices). (name, map (\<lambda>i. slices ! i) positions)) (v_vars data))
          = map (\<lambda>(name, slices). (name, slices ! (positions ! k))) (v_vars data)"
      using k by (simp add: comp_def case_prod_unfold)
    with k p show "time_slices out ! k = map (\<lambda>i. time_slices data ! i) positions ! k"
      by (simp add: time_slices_def out)
  qed
qed

lemma mset_permuted:
  assumes "sort positions = [0 ..< length xs]"
  shows "mset (map (\<lambda>i. xs ! i) positions) = mset xs"
proof -
  have "mset positions = mset (sort positions)" by simp
  also have "\<dots> = mset [0 ..< length xs]" by (simp only: assms)
  finally have "image_mset (\<lambda>i. xs ! i) (mset positions) = image_mset (\<lambda>i. xs ! i) (mset [0 ..< length xs])"
    by simp
  then have "mset (map (\<lambda>i. xs ! i) positions) = mset (map (\<lambda>i. xs ! i) [0 ..< length xs])"
    by simp
  then show ?thesis by (simp add: map_nth)
qed

lemma positions_in_range:
  assumes "sort positions = [0 ..< n]"
  shows "list_all (\<lambda>i. i < n) positions"
proof -
  have "set positions = set (sort positions)" by simp
  also have "\<dots> = {0 ..< n}" by (simp only: assms) simp
  finally show ?thesis by (simp add: list_all_iff)
qed

lemma tag_source_ok:
  assumes "time_shaped d" "map fst (v_vars d) = map fst (v_vars ref)" "v_npix d = v_npix ref"
  shows "tagged_ok (tag_source j ref) (tag_source i d)"
  using assms by (simp add: tagged_ok_def tag_source_def time_shaped_def)

lemma enumerate_snd: "p \<in> set (enumerate n xs) \<Longrightarrow> snd p \<in> set xs"
  by (cases p) (auto simp: enumerate_eq_zip dest: set_zip_rightD)

lemma tagged_all_ok:
  assumes "ds \<noteq> []"
    and "\<And>d. d \<in> set ds \<Longrightarrow> time_shaped d \<and> map fst (v_vars d) = map fst (v_vars (hd ds))
                       \<and> v_npix d = v_npix (hd ds)"
  shows "list_all (tagged_ok (tag_source 0 (hd ds)))
           (map (\<lambda>(idx, dataset). tag_source idx dataset) (enumerate 0 ds))"
proof -
  have "tagged_ok (tag_source 0 (hd ds)) (tag_source (fst p) (snd p))"
    if "p \<in> set (enumerate 0 ds)" for p
  proof -
    from enumerate_snd [OF that] have "snd p \<in> set ds" .
    from assms(2) [OF this] show ?thesis by (intro tag_source_ok) simp_all
  qed
  then show ?thesis by (simp add: list_all_iff case_prod_unfold)
qed

lemma tagged_times:
  "map v_time (map (\<lambda>(idx, dataset). tag_source idx dataset) (enumerate n ds)) = map v_time ds"
proof (induction ds arbitrary: n)
  case Nil
  then show ?case by simp
next
  case (Cons d ds)
  then show ?case by (simp add: tag_source_def)
qed

lemma tagged_slices:
  "map time_slices (map (\<lambda>(idx, dataset). tag_source idx dataset) (enumerate n ds))
     = map (\<lambda>(idx, d). map (\<lambda>(t, s, x). (t, int idx, x)) (time_slices d)) (enumerate n ds)"
proof (induction ds arbitrary: n)
  case Nil
  then show ?case by simp
next
  case (Cons d ds)
  then show ?case by (simp add: time_slices_tag)
qed

text \<open>
  Claim C3, as the code has it. For every non-empty list of source bundles whose loaded
  datasets can be concatenated, \<open>load_data\<close> returns a volume whose timestamps are
  ascending and whose time slices are exactly the time slices of the bundles, each with
  the position of its bundle in the list as its source tag. The order of the slices is
  the one \<open>argsort\<close> returns: the slice at position \<open>k\<close> of the result is the tagged
  slice that the concatenation of the bundles holds at the \<open>k\<close>-th position returned by
  \<open>argsort\<close> for the concatenated timestamps, so slices with equal timestamps come in
  the order \<open>argsort\<close> gives them. All that is used of \<open>argsort\<close> is that it returns
  a permutation of the positions that sorts the timestamps.
\<close>

theorem load_data_sorted_tagged:
  assumes "concatenable (map (load_masked_data sub_tile_slice) srcs)"
    and "is_argsort (concat (map v_time (map (load_masked_data sub_tile_slice) srcs)))
           (argsort (concat (map v_time (map (load_masked_data sub_tile_slice) srcs))))"
  shows "\<exists>data. load_data argsort load_masked_data sub_tile_slice srcs = Inr data
           \<and> sorted (v_time data)
           \<and> mset (time_slices data) =
               mset (concat (map (\<lambda>(idx, d). map (\<lambda>(t, s, x). (t, int idx, x)) (time_slices d))
                               (enumerate 0 (map (load_masked_data sub_tile_slice) srcs))))
           \<and> time_slices data =
               map (\<lambda>i. concat (map (\<lambda>(idx, d). map (\<lambda>(t, s, x). (t, int idx, x)) (time_slices d))
                                     (enumerate 0 (map (load_masked_data sub_tile_slice) srcs))) ! i)
                 (argsort (concat (map v_time (map (load_masked_data sub_tile_slice) srcs))))"
proof -
  define ds where "ds = map (load_masked_data sub_tile_slice) srcs"
  define tagged where "tagged = map (\<lambda>(idx, dataset). tag_source idx dataset) (enumerate 0 ds)"
  from assms(1) have ne: "ds \<noteq> []"
    unfolding ds_def [symmetric] by (simp add: concatenable_def)
  from assms(1) have each: "time_shaped d \<and> map fst (v_vars d) = map fst (v_vars (hd ds))
                       \<and> v_npix d = v_npix (hd ds)" if "d \<in> set ds" for d
    using that unfolding ds_def [symmetric] concatenable_def list_all_iff by blast
  have tne: "tagged \<noteq> []" using ne by (cases ds) (simp_all add: tagged_def)
  have hd: "hd tagged = tag_source 0 (hd ds)"
    using ne by (cases ds) (simp_all add: tagged_def)
  have tok: "list_all (tagged_ok (hd tagged)) tagged"
    unfolding hd unfolding tagged_def by (rule tagged_all_ok [OF ne each])
  have tt: "map v_time tagged = map v_time ds"
    unfolding tagged_def by (rule tagged_times)
  have ts: "map time_slices tagged
          = map (\<lambda>(idx, d). map (\<lambda>(t, s, x). (t, int idx, x)) (time_slices d)) (enumerate 0 ds)"
    unfolding tagged_def by (rule tagged_slices)
  from xarray_concat_ok [OF tne tok] obtain c where
    c: "xarray_concat tagged = Inr c" "v_time c = concat (map v_time tagged)"
      "time_slices c = concat (map time_slices tagged)"
    by blast
  define positions where "positions = argsort (v_time c)"
  have vt: "v_time c = concat (map v_time ds)" unfolding c(2) tt ..
  from assms(2) have a: "is_argsort (v_time c) positions"
    unfolding positions_def vt ds_def .
  then have srt: "sort positions = [0 ..< length (v_time c)]"
    and asc: "sorted (map (\<lambda>i. v_time c ! i) positions)"
    by (simp_all add: is_argsort_def)
  from positions_in_range [OF srt] obtain out where
    out: "isel_time c positions = Inr out"
    by (simp add: isel_time_def)
  have len: "length (time_slices c) = length (v_time c)" by (simp add: time_slices_def)
  have "load_data argsort load_masked_data sub_tile_slice srcs
          = bindE (xarray_concat tagged) (\<lambda>data. isel_time data (argsort (v_time data)))"
    unfolding load_data_def Let_def ds_def tagged_def ..
  then have run: "load_data argsort load_masked_data sub_tile_slice srcs = Inr out"
    unfolding c(1) using out by (simp add: positions_def)
  have s1: "sorted (v_time out)"
    unfolding time_slices_isel(2) [OF out] by (rule asc)
  have "sort positions = [0 ..< length (time_slices c)]" unfolding len by (rule srt)
  from mset_permuted [OF this] have "mset (time_slices out) = mset (time_slices c)"
    unfolding time_slices_isel(1) [OF out] .
  then have s2: "mset (time_slices out) =
               mset (concat (map (\<lambda>(idx, d). map (\<lambda>(t, s, x). (t, int idx, x)) (time_slices d))
                               (enumerate 0 (map (load_masked_data sub_tile_slice) srcs))))"
    unfolding c(3) ts ds_def .
  have s3: "time_slices out =
               map (\<lambda>i. concat (map (\<lambda>(idx, d). map (\<lambda>(t, s, x). (t, int idx, x)) (time_slices d))
                                     (enumerate 0 (map (load_masked_data sub_tile_slice) srcs))) ! i)
                 (argsort (concat (map v_time (map (load_masked_data sub_tile_slice) srcs))))"
    unfolding time_slices_isel(1) [OF out] positions_def vt c(3) ts ds_def ..
  show ?thesis
  proof (rule exI [of _ out], intro conjI)
    show "load_data argsort load_masked_data sub_tile_slice srcs = Inr out" by (rule run)
    show "sorted (v_time out)" by (rule s1)
    show "mset (time_slices out) =
               mset (concat (map (\<lambda>(idx, d). map (\<lambda>(t, s, x). (t, int idx, x)) (time_slices d))
                               (enumerate 0 (map (load_masked_data sub_tile_slice) srcs))))"
      by (rule s2)
    show "time_slices out =
               map (\<lambda>i. concat (map (\<lambda>(idx, d). map (\<lambda>(t, s, x). (t, int idx, x)) (time_slices d))
                                     (enumerate 0 (map (load_masked_data sub_tile_slice) srcs))) ! i)
                 (argsort (concat (map v_time (map (load_masked_data sub_tile_slice) srcs))))"
      by (rule s3)
  qed
qed


theorem load_data_sorted_tagged_witness:
  "concatenable
     [\<lparr> v_time = [1, 5], v_source = [], v_npix = 1,
        v_vars = [(''blue'', [[Finite 10], [Finite 50]])], v_crs = ''EPSG:3577'' \<rparr>,
      \<lparr> v_time = [3], v_source = [], v_npix = 1,
        v_vars = [(''blue'', [[Finite 30]])], v_crs = ''EPSG:3577'' \<rparr>]
   \<and> is_argsort [1, 5, 3] [0, 2, 1]
   \<and> (\<exists>data. load_data (\<lambda>ts. [0, 2, 1]) (\<lambda>sub_tile_slice source_prod. source_prod) ()
          [\<lparr> v_time = [1, 5], v_source = [], v_npix = 1,
             v_vars = [(''blue'', [[Finite 10], [Finite 50]])], v_crs = ''EPSG:3577'' \<rparr>,
           \<lparr> v_time = [3], v_source = [], v_npix = 1,
             v_vars = [(''blue'', [[Finite 30]])], v_crs = ''EPSG:3577'' \<rparr>] = Inr data
        \<and> sorted (v_time data)
        \<and> mset (time_slices data) =
            {# (1, 0, [(''blue'', [Finite 10])]), (5, 0, [(''blue'', [Finite 50])]),
               (3, 1, [(''blue'', [Finite 30])]) #}
        \<and> time_slices data =
            [(1, 0, [(''blue'', [Finite 10])]), (3, 1, [(''blue'', [Finite 30])]),
             (5, 0, [(''blue'', [Finite 50])])])"
proof -
  let ?d0 = "\<lparr> v_time = [1, 5], v_source = [], v_npix = 1,
        v_vars = [(''blue'', [[Finite 10], [Finite 50]])], v_crs = ''EPSG:3577'' \<rparr>"
  let ?d1 = "\<lparr> v_time = [3], v_source = [], v_npix = 1,
        v_vars = [(''blue'', [[Finite 30]])], v_crs = ''EPSG:3577'' \<rparr>"
  let ?load = "\<lambda>(sub_tile_slice :: unit) (source_prod :: volume). source_prod"
  have h1: "concatenable (map (?load ()) [?d0, ?d1])"
    by (simp add: concatenable_def time_shaped_def)
  have a: "is_argsort [1, 5, 3] [0, 2, 1]"
    by (simp add: is_argsort_def upt_rec)
  then have h2: "is_argsort (concat (map v_time (map (?load ()) [?d0, ?d1])))
                   ((\<lambda>ts. [0, 2, 1]) (concat (map v_time (map (?load ()) [?d0, ?d1]))))"
    by simp
  have sl: "concat (map (\<lambda>(idx, d). map (\<lambda>(t, s, x). (t, int idx, x)) (time_slices d))
                               (enumerate 0 (map (?load ()) [?d0, ?d1])))
          = [(1, 0, [(''blue'', [Finite 10])]), (5, 0, [(''blue'', [Finite 50])]),
             (3, 1, [(''blue'', [Finite 30])])]"
    by (simp add: time_slices_def upt_rec)
  from load_data_sorted_tagged [of ?load "()" "[?d0, ?d1]" "\<lambda>ts. [0, 2, 1]", OF h1 h2]
  have "\<exists>data. load_data (\<lambda>ts. [0, 2, 1]) ?load () [?d0, ?d1] = Inr data
        \<and> sorted (v_time data)
        \<and> mset (time_slices data) =
            mset [(1, 0, [(''blue'', [Finite 10])]), (5, 0, [(''blue'', [Finite 50])]),
                  (3, 1, [(''blue'', [Finite 30])])]
        \<and> time_slices data =
            map (\<lambda>i. [(1, 0, [(''blue'', [Finite 10])]), (5, 0, [(''blue'', [Finite 50])]),
                      (3, 1, [(''blue'', [Finite 30])])] ! i)
              ((\<lambda>ts. [0, 2, 1]) (concat (map v_time (map (?load ()) [?d0, ?d1]))))"
    unfolding sl .
  moreover have "concatenable [?d0, ?d1]" using h1 by simp
  ultimately show ?thesis using a by simp
qed

text \<open>
  The claim that slices with equal timestamps keep their concatenation order does not
  follow: the sort is the default \<open>argsort\<close> of the array library, for which no stable
  kind is requested. With 17 bundles that each load one slice of the same timestamp and
  an argsort that returns the positions below (a permutation that sorts, but not the
  stable one), the source tags of the result are not in bundle order.
\<close>

theorem load_data_ties_counterexample:
  "is_argsort (replicate 17 0) [0, 14, 13, 12, 11, 10, 9, 15, 8, 6, 5, 4, 3, 2, 1, 7, 16]
   \<and> \<not> is_stable_argsort (replicate 17 0) [0, 14, 13, 12, 11, 10, 9, 15, 8, 6, 5, 4, 3, 2, 1, 7, 16]
   \<and> map_sum id (\<lambda>data. (v_time data, v_source data))
        (load_data (\<lambda>ts. [0, 14, 13, 12, 11, 10, 9, 15, 8, 6, 5, 4, 3, 2, 1, 7, 16])
           (\<lambda>sub_tile_slice source_prod. source_prod) () (replicate 17 single_slice))
      = Inr (replicate 17 0, [0, 14, 13, 12, 11, 10, 9, 15, 8, 6, 5, 4, 3, 2, 1, 7, 16])"
proof (intro conjI)
  show a: "is_argsort (replicate 17 0) [0, 14, 13, 12, 11, 10, 9, 15, 8, 6, 5, 4, 3, 2, 1, 7, 16]"
    by code_simp
  show "\<not> is_stable_argsort (replicate 17 0) [0, 14, 13, 12, 11, 10, 9, 15, 8, 6, 5, 4, 3, 2, 1, 7, 16]"
    by code_simp
  show "map_sum id (\<lambda>data. (v_time data, v_source data))
        (load_data (\<lambda>ts. [0, 14, 13, 12, 11, 10, 9, 15, 8, 6, 5, 4, 3, 2, 1, 7, 16])
           (\<lambda>sub_tile_slice source_prod. source_prod) () (replicate 17 single_slice))
      = Inr (replicate 17 0, [0, 14, 13, 12, 11, 10, 9, 15, 8, 6, 5, 4, 3, 2, 1, 7, 16])"
    by code_simp
qed


subsection \<open>Closing the output sinks of a task\<close>

lemma for_each_preserves:
  assumes "for_each f xs st = (st', r)" and "P st"
    and "\<And>x s s' r'. x \<in> set xs \<Longrightarrow> P s \<Longrightarrow> f x s = (s', r') \<Longrightarrow> P s'"
  shows "P st'"
  using assms
proof (induction xs arbitrary: st)
  case Nil
  then show ?case by simp
next
  case (Cons x xs)
  obtain s1 r1 where f: "f x st = (s1, r1)" by (cases "f x st")
  from Cons.prems(3) [of x st s1 r1] Cons.prems(2) f have p1: "P s1" by simp
  show ?case
  proof (cases r1)
    case None
    with Cons.prems(1) f have "for_each f xs s1 = (st', r)" by simp
    show ?thesis
    proof (rule Cons.IH [OF \<open>for_each f xs s1 = (st', r)\<close> p1])
      fix y s s' r' assume "y \<in> set xs" "P s" "f y s = (s', r')"
      then show "P s'" using Cons.prems(3) [of y s s' r'] by simp
    qed
  next
    case (Some e)
    with Cons.prems(1) f have "st' = s1" by simp
    with p1 show ?thesis by simp
  qed
qed

lemma write_sink_same: "write_sink w key var chunk s = (s', r) \<Longrightarrow> same_sinks st s \<Longrightarrow> same_sinks st s'"
  by (auto simp: write_sink_def same_sinks_def split: option.splits)

lemma write_data_same:
  "write_data kind w products pname var chunk s = (s', r) \<Longrightarrow> same_sinks st s \<Longrightarrow> same_sinks st s'"
  by (cases kind) (auto split: option.splits if_splits dest: write_sink_same)

lemma product_step_same:
  assumes "(case p of (prod_name, stat) \<Rightarrow> \<lambda>st.
                    if \<not> sv_masked stat then (st, Some AssertionError)
                    else (case compute_vars w prod_name chunk of
                            Inl e \<Rightarrow> (st, Some e)
                          | Inr var_names \<Rightarrow>
                              for_each (\<lambda>var_name.
                                 write_data kind w products prod_name var_name chunk)
                                var_names st)) s = (s', r)"
    and "same_sinks st s"
  shows "same_sinks st s'"
proof -
  obtain prod_name stat where p: "p = (prod_name, stat)" by (cases p)
  show ?thesis
  proof (cases "sv_masked stat")
    case False
    with assms p show ?thesis by simp
  next
    case True
    show ?thesis
    proof (cases "compute_vars w prod_name chunk")
      case (Inl e)
      with assms p True show ?thesis by simp
    next
      case (Inr var_names)
      with assms p True have
        "for_each (\<lambda>var_name. write_data kind w products prod_name var_name chunk) var_names s = (s', r)"
        by simp
      from for_each_preserves [OF this, of "same_sinks st"] assms(2) show ?thesis
        by (blast intro: write_data_same)
    qed
  qed
qed

lemma do_stats_body_same:
  assumes "do_stats_body kind w task chunks st = (st', r)"
  shows "same_sinks st st'"
proof (cases "sources task = []")
  case True
  with assms show ?thesis by (simp add: do_stats_body_def same_sinks_def)
next
  case False
  let ?chunk_step = "\<lambda>sub_tile_slice st.
             case load_raises w sub_tile_slice of
               Some e \<Rightarrow> (st, Some e)
             | None \<Rightarrow>
                 for_each (\<lambda>(prod_name, stat) st.
                    if \<not> sv_masked stat then (st, Some AssertionError)
                    else (case compute_vars w prod_name sub_tile_slice of
                            Inl e \<Rightarrow> (st, Some e)
                          | Inr var_names \<Rightarrow>
                              for_each (\<lambda>var_name.
                                 write_data kind w (output_products task) prod_name var_name sub_tile_slice)
                                var_names st))
                   (output_products task) st"
  from assms False have run: "for_each ?chunk_step chunks st = (st', r)"
    by (simp add: do_stats_body_def)
  have step: "same_sinks st s'" if "same_sinks st s" "?chunk_step c s = (s', r')" for c s s' r'
  proof (cases "load_raises w c")
    case (Some e)
    with that show ?thesis by simp
  next
    case None
    with that(2) have
      "for_each (\<lambda>(prod_name, stat) st.
                    if \<not> sv_masked stat then (st, Some AssertionError)
                    else (case compute_vars w prod_name c of
                            Inl e \<Rightarrow> (st, Some e)
                          | Inr var_names \<Rightarrow>
                              for_each (\<lambda>var_name.
                                 write_data kind w (output_products task) prod_name var_name c)
                                var_names st))
                   (output_products task) s = (s', r')"
      by simp
    from for_each_preserves [OF this, of "same_sinks st"] that(1) show ?thesis
      by (blast intro: product_step_same)
  qed
  have "same_sinks st st" by (simp add: same_sinks_def)
  from for_each_preserves [OF run, of "same_sinks st", OF this] step show ?thesis by blast
qed

lemma for_each_cong:
  "(\<And>x. x \<in> set xs \<Longrightarrow> f x = g x) \<Longrightarrow> for_each f xs st = for_each g xs st"
  by (induction xs arbitrary: st) (auto split: prod.splits option.splits)

lemma for_each_map: "for_each f (map g xs) st = for_each (\<lambda>x. f (g x)) xs st"
  by (induction xs arbitrary: st) (auto split: prod.splits option.splits)

lemma for_each_append:
  "for_each f (xs @ ys) st =
     (case for_each f xs st of (st', Some e) \<Rightarrow> (st', Some e) | (st', None) \<Rightarrow> for_each f ys st')"
  by (induction xs arbitrary: st) (auto split: prod.splits option.splits)

lemma for_each_concat:
  "for_each (\<lambda>x. for_each f (h x)) xs st = for_each f (concat (map h xs)) st"
  by (induction xs arbitrary: st) (auto simp: for_each_append split: prod.splits option.splits)

lemma has_template_filename: "has_template stat \<Longrightarrow> \<exists>t. filename_template stat = Inr t"
  by (auto simp: has_template_def filename_template_def getitem_def split: option.splits pyval.splits)

lemma open_output_files_keys:
  assumes "list_all (\<lambda>(prod_name, stat). has_template stat) products"
  shows "open_output_files kind w products st = for_each (open_sink w) (sink_keys kind products) st"
proof (cases kind)
  case NetcdfOutputDriver
  have "(case p of (prod_name, stat) \<Rightarrow> \<lambda>st.
        case filename_template stat of
          Inl e \<Rightarrow> (st, Some e)
        | Inr t \<Rightarrow> open_sink w prod_name st) = open_sink w (fst p)"
    if "p \<in> set products" for p
  proof -
    obtain prod_name stat where p: "p = (prod_name, stat)" by (cases p)
    with that assms have "has_template stat" by (auto simp: list_all_iff)
    from has_template_filename [OF this] show ?thesis by (auto simp: p)
  qed
  then show ?thesis
    unfolding NetcdfOutputDriver open_output_files.simps sink_keys.simps for_each_map
    by (rule for_each_cong)
next
  case RioOutputDriver
  have "(case p of (prod_name, stat) \<Rightarrow>
        for_each (\<lambda>measurename st.
           case filename_template stat of
             Inl e \<Rightarrow> (st, Some e)
           | Inr t \<Rightarrow> open_sink w (prod_name @ measurename) st) (sv_measurements stat))
      = for_each (open_sink w)
          (case p of (prod_name, stat) \<Rightarrow> map (\<lambda>measurename. prod_name @ measurename) (sv_measurements stat))"
    if "p \<in> set products" for p
  proof -
    obtain prod_name stat where p: "p = (prod_name, stat)" by (cases p)
    with that assms have "has_template stat" by (auto simp: list_all_iff)
    from has_template_filename [OF this] obtain t where t: "filename_template stat = Inr t" by blast
    show ?thesis
      unfolding p by (rule ext) (simp add: t for_each_map)
  qed
  then have "open_output_files kind w products st
      = for_each (\<lambda>p. for_each (open_sink w)
          (case p of (prod_name, stat) \<Rightarrow> map (\<lambda>measurename. prod_name @ measurename) (sv_measurements stat)))
          products st"
    unfolding RioOutputDriver open_output_files.simps by (rule for_each_cong)
  then show ?thesis
    unfolding RioOutputDriver sink_keys.simps for_each_concat .
qed

lemma dict_set_fresh: "k \<notin> set (map fst d) \<Longrightarrow> dict_set d k v = d @ [(k, v)]"
  by (induction d) auto

lemma open_keys_distinct:
  assumes "\<And>key. open_raises w key = None"
    and "distinct (map fst (output_files st) @ keys)"
  shows "\<exists>st'. for_each (open_sink w) keys st = (st', None)
           \<and> output_files st' = output_files st
                @ zip keys [length (opened st) ..< length (opened st) + length keys]
           \<and> opened st' = opened st @ [length (opened st) ..< length (opened st) + length keys]
           \<and> close_calls st' = close_calls st"
  using assms(2)
proof (induction keys arbitrary: st)
  case Nil
  then show ?case by simp
next
  case (Cons k keys)
  let ?n = "length (opened st)"
  let ?s1 = "st \<lparr> output_files := dict_set (output_files st) k ?n, opened := opened st @ [?n] \<rparr>"
  from Cons.prems have fresh: "k \<notin> set (map fst (output_files st))" by auto
  have s1: "open_sink w k st = (?s1, None)" by (simp add: open_sink_def assms(1))
  have of1: "output_files ?s1 = output_files st @ [(k, ?n)]"
    using dict_set_fresh [OF fresh] by simp
  have "distinct (map fst (output_files ?s1) @ keys)"
    unfolding of1 using Cons.prems by auto
  from Cons.IH [OF this] obtain st' where
    st': "for_each (open_sink w) keys ?s1 = (st', None)"
      "output_files st' = output_files ?s1 @ zip keys [length (opened ?s1) ..< length (opened ?s1) + length keys]"
      "opened st' = opened ?s1 @ [length (opened ?s1) ..< length (opened ?s1) + length keys]"
      "close_calls st' = close_calls ?s1"
    by blast
  have up: "[?n ..< ?n + length (k # keys)] = ?n # [Suc ?n ..< Suc ?n + length keys]"
    by (simp add: upt_rec)
  have "for_each (open_sink w) (k # keys) st = (st', None)"
    using s1 st'(1) by simp
  moreover have "output_files st' = output_files st @ zip (k # keys) [?n ..< ?n + length (k # keys)]"
    unfolding up st'(2) of1 by simp
  moreover have "opened st' = opened st @ [?n ..< ?n + length (k # keys)]"
    unfolding up st'(3) by simp
  moreover have "close_calls st' = close_calls st"
    unfolding st'(4) by simp
  ultimately show ?case by blast
qed

lemma close_each:
  assumes "\<And>h. close_raises w h = None"
  shows "for_each (\<lambda>(key, output_file) st.
            (st \<lparr> close_calls := close_calls st @ [output_file] \<rparr>, close_raises w output_file)) fs st
         = (st \<lparr> close_calls := close_calls st @ map snd fs \<rparr>, None)"
  by (induction fs arbitrary: st) (auto simp: assms)

lemma close_files_all:
  assumes "\<And>h. close_raises w h = None"
  shows "close_files w st = (st \<lparr> close_calls := close_calls st @ map snd (output_files st) \<rparr>, None)"
  unfolding close_files_def by (rule close_each [OF assms])

text \<open>
  Claim C7, as the code has it. For every task whose output sinks have all been opened
  (every product has a file path template and no sink fails to open) under distinct
  dictionary keys, \<open>close_files\<close> runs when the \<open>with\<close> block of \<open>do_stats\<close> is left,
  whether the block completed or a load, compute or write step raised, and \<open>do_stats\<close>
  ends with the outcome of the block. If no \<open>close()\<close> raises, \<open>close()\<close> has then been
  invoked exactly once on every sink that was opened, in order of opening.
\<close>

theorem do_stats_closes_sinks:
  assumes "getitem (cfg_storage config) ''driver'' = Inr (PStr name)"
    and "map_of OUTPUT_DRIVERS name = Some kind"
    and "list_all (\<lambda>(prod_name, stat). has_template stat) (output_products task)"
    and "distinct (sink_keys kind (output_products task))"
    and "\<And>key. open_raises w key = None"
    and "\<And>h. close_raises w h = None"
  shows "\<exists>st_open st.
           open_output_files kind w (output_products task) OutputDriver_init = (st_open, None)
           \<and> do_stats w config task chunks = (st, snd (do_stats_body kind w task chunks st_open))
           \<and> opened st = [0 ..< length (sink_keys kind (output_products task))]
           \<and> close_calls st = opened st"
proof -
  let ?keys = "sink_keys kind (output_products task)"
  have "distinct (map fst (output_files OutputDriver_init) @ ?keys)"
    using assms(4) by (simp add: OutputDriver_init_def)
  from open_keys_distinct [of w OutputDriver_init ?keys, OF assms(5) this] obtain st_open where
    o: "for_each (open_sink w) ?keys OutputDriver_init = (st_open, None)"
      "output_files st_open = zip ?keys [0 ..< length ?keys]"
      "opened st_open = [0 ..< length ?keys]"
      "close_calls st_open = []"
    by (auto simp: OutputDriver_init_def)
  have op: "open_output_files kind w (output_products task) OutputDriver_init = (st_open, None)"
    unfolding open_output_files_keys [OF assms(3)] by (rule o(1))
  obtain st_body r where b: "do_stats_body kind w task chunks st_open = (st_body, r)"
    by (cases "do_stats_body kind w task chunks st_open")
  from do_stats_body_same [OF b] have same: "output_files st_body = output_files st_open"
    "opened st_body = opened st_open" "close_calls st_body = close_calls st_open"
    by (simp_all add: same_sinks_def)
  let ?st = "st_body \<lparr> close_calls := close_calls st_body @ map snd (output_files st_body) \<rparr>"
  have cl: "close_files w st_body = (?st, None)"
    by (rule close_files_all [OF assms(6)])
  have "with_output_driver kind w task chunks = (?st, r)"
    by (simp add: with_output_driver_def op b cl)
  then have run: "do_stats w config task chunks = (?st, snd (do_stats_body kind w task chunks st_open))"
    by (simp add: do_stats_def assms(1,2) b)
  have "opened ?st = [0 ..< length ?keys]"
    by (simp add: same o(3))
  moreover have "close_calls ?st = opened ?st"
    by (simp add: same o(2,3,4))
  ultimately show ?thesis using op run by blast
qed

lemmas run_eval = do_stats_def with_output_driver_def do_stats_body_def close_files_def
  open_sink_def write_sink_def filename_template_def getitem_def OUTPUT_DRIVERS_def
  OutputDriver_init_def example_task_def two_products_def netcdf_config_def has_template_def

theorem do_stats_closes_sinks_witness:
  "\<exists>st. do_stats
          \<lparr> open_raises = (\<lambda>key. None), close_raises = (\<lambda>h. None),
            write_raises = (\<lambda>h var chunk. if h = 1 then Some IOError else None),
            load_raises = (\<lambda>chunk. None), compute_vars = (\<lambda>p chunk. Inr [''red'']) \<rparr>
          netcdf_config example_task [0, 1] = (st, Some IOError)
        \<and> opened st = [0, 1] \<and> close_calls st = [0, 1]"
proof -
  let ?w = "\<lparr> open_raises = (\<lambda>key. None), close_raises = (\<lambda>h. None),
            write_raises = (\<lambda>h var chunk. if h = 1 then Some IOError else None),
            load_raises = (\<lambda>chunk. None), compute_vars = (\<lambda>p chunk. Inr [''red'']) \<rparr>"
  have h1: "getitem (cfg_storage netcdf_config) ''driver'' = Inr (PStr ''NetCDF CF'')"
    by (simp add: netcdf_config_def getitem_def)
  have h2: "map_of OUTPUT_DRIVERS ''NetCDF CF'' = Some NetcdfOutputDriver"
    by (simp add: OUTPUT_DRIVERS_def)
  have h3: "list_all (\<lambda>(prod_name, stat). has_template stat) (output_products example_task)"
    by (simp add: example_task_def two_products_def has_template_def)
  have h4: "distinct (sink_keys NetcdfOutputDriver (output_products example_task))"
    by (simp add: example_task_def two_products_def)
  have h5: "\<And>key. open_raises ?w key = None" by simp
  have h6: "\<And>h. close_raises ?w h = None" by simp
  from do_stats_closes_sinks [of netcdf_config "''NetCDF CF''" NetcdfOutputDriver example_task ?w "[0, 1]",
      OF h1 h2 h3 h4 h5 h6]
  obtain st_open st where
    r: "open_output_files NetcdfOutputDriver ?w (output_products example_task) OutputDriver_init = (st_open, None)"
      "do_stats ?w netcdf_config example_task [0, 1]
         = (st, snd (do_stats_body NetcdfOutputDriver ?w example_task [0, 1] st_open))"
      "opened st = [0 ..< length (sink_keys NetcdfOutputDriver (output_products example_task))]"
      "close_calls st = opened st"
    by (elim exE conjE) (rule that)
  from r(1) have so: "st_open = \<lparr> output_files = [(''nbar_mean'', 0), (''nbar_max'', 1)], opened = [0, 1],
                                  close_calls = [], written = [] \<rparr>"
    by (simp add: run_eval)
  have "snd (do_stats_body NetcdfOutputDriver ?w example_task [0, 1] st_open) = Some IOError"
    unfolding so by (simp add: run_eval)
  with r(2) have "do_stats ?w netcdf_config example_task [0, 1] = (st, Some IOError)" by simp
  moreover from r(3) have "opened st = [0, 1]"
    by (simp add: example_task_def two_products_def upt_rec)
  ultimately show ?thesis using r(4) by auto
qed

text \<open>
  Without these provisos a sink can stay open. \<open>close_files\<close> calls \<open>close()\<close> on the
  sinks one after the other and stops at the first that raises: when a write to the
  first sink fails and closing that sink fails too, \<open>close()\<close> is never invoked on the
  second sink.
\<close>

theorem do_stats_close_counterexample:
  "do_stats
     \<lparr> open_raises = (\<lambda>key. None),
       close_raises = (\<lambda>h. if h = 0 then Some IOError else None),
       write_raises = (\<lambda>h var chunk. if h = 0 then Some IOError else None),
       load_raises = (\<lambda>chunk. None), compute_vars = (\<lambda>p chunk. Inr [''red'']) \<rparr>
     netcdf_config example_task [0]
   = (\<lparr> output_files = [(''nbar_mean'', 0), (''nbar_max'', 1)], opened = [0, 1],
        close_calls = [0], written = [] \<rparr>, Some IOError)"
  by (simp add: run_eval)

text \<open>
  Likewise, when the second sink cannot be created, the exception leaves \<open>__enter__\<close>,
  \<open>__exit__\<close> is not run, and the first sink stays open.
\<close>

lemma do_stats_open_failure_leaks:
  "do_stats
     \<lparr> open_raises = (\<lambda>key. if key = ''nbar_max'' then Some IOError else None),
       close_raises = (\<lambda>h. None), write_raises = (\<lambda>h var chunk. None),
       load_raises = (\<lambda>chunk. None), compute_vars = (\<lambda>p chunk. Inr [''red'']) \<rparr>
     netcdf_config example_task [0]
   = (\<lparr> output_files = [(''nbar_mean'', 0)], opened = [0], close_calls = [], written = [] \<rparr>,
      Some IOError)"
  by (simp add: run_eval)

end
